theory Spec2Isabelle
  imports Complex_Main
begin

section \<open>Python values, errors and the outside world\<close>

text \<open>
  The module \<^verbatim>\<open>geosatpy.py\<close> is Python 3 (it uses \<^verbatim>\<open>return print(...)\<close>). Every method
  of class \<^verbatim>\<open>GeoProcess\<close> drives the GDAL library and the file system, so a method is
  modelled as a function from the world before the call to a pair: what the call returns
  or raises (\<open>Inl\<close> is a raised exception) and the world after it. The world after a raised
  exception keeps every effect the call had before raising.
\<close>

datatype py_error =
    TypeError
  | AttributeError
  | ValueError
  | IndexError
  | UnboundLocalError
  | FileNotFoundError

type_synonym path = string

text \<open>The values the module passes as arguments in class-qualified calls.\<close>

datatype pyval = PNone | PInt int | PStr string | PStrList "string list"

text \<open>
  A \<^verbatim>\<open>for\<close> loop over a list, with the local variables the body updates as \<open>s\<close>: an
  exception raised by the body leaves the loop.
\<close>

fun py_for ::
  "'a list \<Rightarrow> ('a \<Rightarrow> 's \<Rightarrow> 'w \<Rightarrow> (py_error + 's) \<times> 'w) \<Rightarrow> 's \<Rightarrow> 'w
     \<Rightarrow> (py_error + 's) \<times> 'w" where
  "py_for [] body s W = (Inr s, W)"
| "py_for (x # xs) body s W =
     (case body x s W of
        (Inl e, W1) \<Rightarrow> (Inl e, W1)
      | (Inr s1, W1) \<Rightarrow> py_for xs body s1 W1)"

text \<open>
  \<^verbatim>\<open>range(start, stop, step)\<close>: a zero step raises ValueError, a positive step counts up
  while below \<^verbatim>\<open>stop\<close>, a negative step counts down while above it.
\<close>

function range_up :: "int \<Rightarrow> int \<Rightarrow> int \<Rightarrow> int list" where
  "range_up i stop step =
     (if 0 < step \<and> i < stop then i # range_up (i + step) stop step else [])"
  by pat_completeness auto
termination
  by (relation "measure (\<lambda>(i, stop, step). nat (stop - i))") auto

function range_down :: "int \<Rightarrow> int \<Rightarrow> int \<Rightarrow> int list" where
  "range_down i stop step =
     (if step < 0 \<and> stop < i then i # range_down (i + step) stop step else [])"
  by pat_completeness auto
termination
  by (relation "measure (\<lambda>(i, stop, step). nat (i - stop))") auto

declare range_up.simps [simp del] range_down.simps [simp del]

definition py_range :: "int \<Rightarrow> int \<Rightarrow> int \<Rightarrow> py_error + int list" where
  "py_range start stop step =
     (if step = 0 then Inl ValueError
      else if 0 < step then Inr (range_up start stop step)
      else Inr (range_down start stop step))"

text \<open>\<^verbatim>\<open>'{}'.format(x)\<close> for an integer and for \<^verbatim>\<open>None\<close>.\<close>

definition digit_char :: "nat \<Rightarrow> char" where
  "digit_char d = ''0123456789'' ! d"

function show_nat :: "nat \<Rightarrow> string" where
  "show_nat n =
     (if n < 10 then [digit_char n] else show_nat (n div 10) @ [digit_char (n mod 10)])"
  by pat_completeness auto
termination
  by (relation "measure id") auto

declare show_nat.simps [simp del]

definition show_int :: "int \<Rightarrow> string" where
  "show_int i = (if i < 0 then ''-'' @ show_nat (nat (- i)) else show_nat (nat i))"

definition format_opt :: "int option \<Rightarrow> string" where
  "format_opt v = (case v of None \<Rightarrow> ''None'' | Some i \<Rightarrow> show_int i)"

subsection \<open>numpy arrays\<close>

text \<open>
  An array of rank 2 is a list of rows; an array of rank 3 is a list (first axis) of
  lists (second axis) of lists (third axis). These are the two ranks the module handles.
  A numpy array is rectangular: \<open>rect2\<close> and \<open>rect3\<close> say so of a list of lists, and
  the statements below are about rectangular arrays.
\<close>

datatype ndarray = Arr2 "real list list" | Arr3 "real list list list"

fun shape :: "ndarray \<Rightarrow> nat list" where
  "shape (Arr2 a) = [length a, (case a of [] \<Rightarrow> 0 | r # _ \<Rightarrow> length r)]"
| "shape (Arr3 a) =
     [length a,
      (case a of [] \<Rightarrow> 0 | p # _ \<Rightarrow> length p),
      (case a of [] \<Rightarrow> 0 | p # _ \<Rightarrow> (case p of [] \<Rightarrow> 0 | r # _ \<Rightarrow> length r))]"

definition rect2 :: "nat \<Rightarrow> nat \<Rightarrow> real list list \<Rightarrow> bool" where
  "rect2 n m a = (length a = n \<and> list_all (\<lambda>r. length r = m) a)"

definition rect3 :: "nat \<Rightarrow> nat \<Rightarrow> nat \<Rightarrow> real list list list \<Rightarrow> bool" where
  "rect3 n m k a = (length a = n \<and> list_all (rect2 m k) a)"

text \<open>
  \<^verbatim>\<open>np.dstack(a)\<close> iterates over the first axis of \<^verbatim>\<open>a\<close>, makes every item at least
  rank 3 and concatenates along the third axis. For \<^verbatim>\<open>a\<close> of shape \<open>(n, h, w)\<close> the items
  are \<open>n\<close> planes of shape \<open>(h, w)\<close> and the result has shape \<open>(h, w, n)\<close>; for \<^verbatim>\<open>a\<close> of
  shape \<open>(h, w)\<close> the items are \<open>h\<close> rows, each becoming \<open>(1, w, 1)\<close>, and the result has
  shape \<open>(1, w, h)\<close>. With no item to concatenate numpy raises ValueError.
\<close>

definition stack_last :: "nat \<Rightarrow> nat \<Rightarrow> real list list list \<Rightarrow> real list list list" where
  "stack_last h w planes =
     map (\<lambda>y. map (\<lambda>x. map (\<lambda>p. p ! y ! x) planes) [0..<w]) [0..<h]"

definition np_dstack :: "ndarray \<Rightarrow> py_error + ndarray" where
  "np_dstack arr =
     (case arr of
        Arr3 planes \<Rightarrow>
          (if planes = [] then Inl ValueError
           else Inr (Arr3 (stack_last (shape arr ! 1) (shape arr ! 2) planes)))
      | Arr2 rows \<Rightarrow>
          (if rows = [] then Inl ValueError
           else Inr (Arr3 [map (\<lambda>x. map (\<lambda>r. r ! x) rows) [0..<shape arr ! 1]])))"

subsection \<open>GDAL datasets\<close>

datatype gdal_type = GDT_Byte | GDT_UInt16 | GDT_Float32 | GDT_Float64

record band =
  NoDataValue :: "real option"
  pixels :: "real list list"

record dataset =
  RasterXSize :: nat
  RasterYSize :: nat
  bands :: "band list"
  GeoTransform :: "real list"
  Projection :: string

definition RasterCount :: "dataset \<Rightarrow> nat" where
  "RasterCount ds = length (bands ds)"

text \<open>
  A dataset is well formed when every band holds \<open>RasterYSize\<close> rows of \<open>RasterXSize\<close>
  pixels; GDAL hands out only such datasets.
\<close>

definition wf_dataset :: "dataset \<Rightarrow> bool" where
  "wf_dataset ds =
     list_all (\<lambda>b. rect2 (RasterYSize ds) (RasterXSize ds) (pixels b)) (bands ds)"

text \<open>
  \<^verbatim>\<open>Dataset.ReadAsArray()\<close> returns the single plane \<open>(height, width)\<close> of a one-band
  dataset and otherwise the planes stacked on the first axis, \<open>(bands, height, width)\<close>.
  \<^verbatim>\<open>Dataset.GetRasterBand(n)\<close> counts bands from 1 and returns \<^verbatim>\<open>None\<close> for any other
  number.
\<close>

definition ReadAsArray :: "dataset \<Rightarrow> ndarray" where
  "ReadAsArray ds =
     (if RasterCount ds = 1 then Arr2 (pixels (bands ds ! 0))
      else Arr3 (map pixels (bands ds)))"

definition GetRasterBand :: "dataset \<Rightarrow> int \<Rightarrow> band option" where
  "GetRasterBand ds n =
     (if 1 \<le> n \<and> n \<le> int (RasterCount ds) then Some (bands ds ! nat (n - 1)) else None)"

definition BandReadAsArray :: "band \<Rightarrow> ndarray" where
  "BandReadAsArray b = Arr2 (pixels b)"

subsection \<open>Files, library calls and the world\<close>

text \<open>
  The calls the module makes into GDAL and \<^verbatim>\<open>os\<close>, with the arguments it passes. A
  keyword argument the module does not pass, or passes as \<^verbatim>\<open>None\<close>, is \<open>None\<close>.
\<close>

record translate_args =
  t_destName :: path
  t_srcDS :: path
  t_format :: string
  t_outputType :: "gdal_type option"
  t_srcWin :: "int list option"
  t_noData :: "real option"

record warp_args =
  w_dst :: path
  w_src :: path
  w_width :: "int option"
  w_height :: "int option"
  w_xRes :: "int option"
  w_yRes :: "int option"
  w_outputType :: gdal_type
  w_resampleAlg :: int

datatype event =
    BuildVRT path "path list" bool
  | Translate translate_args
  | Warp warp_args
  | Create path nat nat nat gdal_type
  | SetGeoTransform path "real list"
  | SetProjection path string
  | SetNoDataValue path int real
  | WriteArray path int ndarray
  | FlushCache path
  | Remove path

text \<open>
  A file holds a raster whose pixels are known, or is the product of a GDAL call, or is
  some other file. What GDAL decodes from a product, and which of the calls it is given
  it can complete, is its business: the world carries both, as \<open>render\<close> and
  \<open>completes\<close>, and nothing is assumed about them. \<open>trace\<close> lists the writing calls
  the module has made, in order, completed or not.
\<close>

datatype content = Raster dataset | Product event | Other

record world =
  fs :: "path \<rightharpoonup> content"
  render :: "event \<Rightarrow> dataset option"
  completes :: "event \<Rightarrow> bool"
  stdout :: "string list"
  trace :: "event list"

definition print :: "world \<Rightarrow> string \<Rightarrow> world" where
  "print W s = W\<lparr>stdout := stdout W @ [s]\<rparr>"

definition log_event :: "world \<Rightarrow> event \<Rightarrow> world" where
  "log_event W e = W\<lparr>trace := trace W @ [e]\<rparr>"

definition os_path_isfile :: "world \<Rightarrow> path \<Rightarrow> bool" where
  "os_path_isfile W p = (fs W p \<noteq> None)"

text \<open>
  \<^verbatim>\<open>gdal.Open\<close> returns \<^verbatim>\<open>None\<close> when the path cannot be opened as a raster: the module
  never calls \<^verbatim>\<open>gdal.UseExceptions()\<close>, and its own test \<^verbatim>\<open>if data is not None\<close> relies
  on that.
\<close>

definition gdal_Open :: "world \<Rightarrow> path \<Rightarrow> dataset option" where
  "gdal_Open W p =
     (case fs W p of
        Some (Raster ds) \<Rightarrow> Some ds
      | Some (Product e) \<Rightarrow> render W e
      | _ \<Rightarrow> None)"

text \<open>
  \<^verbatim>\<open>gdal.BuildVRT\<close>, \<^verbatim>\<open>gdal.Translate\<close> and \<^verbatim>\<open>gdal.Warp\<close> write their product at the
  destination when they complete, and return \<^verbatim>\<open>None\<close> without raising when they do not.
\<close>

definition gdal_run :: "world \<Rightarrow> event \<Rightarrow> path \<Rightarrow> world" where
  "gdal_run W e target =
     (let W1 = log_event W e in
      if completes W e then W1\<lparr>fs := (fs W1)(target \<mapsto> Product e)\<rparr> else W1)"

definition gdal_BuildVRT :: "world \<Rightarrow> path \<Rightarrow> path list \<Rightarrow> bool \<Rightarrow> world" where
  "gdal_BuildVRT W destName srcs allowProjectionDifference =
     gdal_run W (BuildVRT destName srcs allowProjectionDifference) destName"

definition gdal_Translate :: "world \<Rightarrow> translate_args \<Rightarrow> world" where
  "gdal_Translate W a = gdal_run W (Translate a) (t_destName a)"

definition gdal_Warp :: "world \<Rightarrow> warp_args \<Rightarrow> world" where
  "gdal_Warp W a = gdal_run W (Warp a) (w_dst a)"

text \<open>\<^verbatim>\<open>os.remove\<close> raises FileNotFoundError when there is no such file.\<close>

definition os_remove :: "world \<Rightarrow> path \<Rightarrow> (py_error + unit) \<times> world" where
  "os_remove W p =
     (let W1 = log_event W (Remove p) in
      if fs W p = None then (Inl FileNotFoundError, W1)
      else (Inr (), W1\<lparr>fs := (fs W1)(p := None)\<rparr>))"

text \<open>
  The four \<^verbatim>\<open>if dtype == ...\<close> statements that open tiling, resizing and save_tiff. They
  are four separate tests with no \<^verbatim>\<open>else\<close>: for any other name the local variable
  \<^verbatim>\<open>outputType\<close> stays unbound (\<open>None\<close> here) and reading it raises UnboundLocalError.
\<close>

definition outputType_of :: "string \<Rightarrow> gdal_type option" where
  "outputType_of dtype =
     (let t0 = None;
          t1 = (if dtype = ''Float32'' then Some GDT_Float32 else t0);
          t2 = (if dtype = ''Float64'' then Some GDT_Float64 else t1);
          t3 = (if dtype = ''UInt16'' then Some GDT_UInt16 else t2);
          t4 = (if dtype = ''Byte'' then Some GDT_Byte else t3)
      in t4)"

section \<open>GeoProcess.asArray\<close>

text \<open>
  Lines 95 to 110. \<open>band = None\<close> is the default \<^verbatim>\<open>band = None\<close>. The result \<open>Inr None\<close>
  is a normal return of Python's \<^verbatim>\<open>None\<close>, which is what \<^verbatim>\<open>print\<close> returns.
  \<^verbatim>\<open>b = data.GetRasterBand(band)\<close> is \<^verbatim>\<open>None\<close> for a band the source does not have, and
  \<^verbatim>\<open>b.ReadAsArray()\<close> then raises AttributeError.
\<close>

definition asArray ::
  "world \<Rightarrow> path \<Rightarrow> int option \<Rightarrow> (py_error + ndarray option) \<times> world" where
  "asArray W p band =
     (case gdal_Open W p of
        Some data \<Rightarrow>
          (let num_bands = RasterCount data in
           case band of
             None \<Rightarrow>
               (if num_bands > 1 then
                  (case np_dstack (ReadAsArray data) of
                     Inl e \<Rightarrow> (Inl e, W)
                   | Inr array \<Rightarrow> (Inr (Some array), W))
                else (Inr (Some (ReadAsArray data)), W))
           | Some n \<Rightarrow>
               (case GetRasterBand data n of
                  None \<Rightarrow> (Inl AttributeError, W)
                | Some b \<Rightarrow> (Inr (Some (BandReadAsArray b)), W)))
      | None \<Rightarrow> (Inr None, print W (''No data in '' @ p)))"

subsection \<open>Class-qualified calls\<close>

text \<open>
  Inside the class the module calls its own methods as \<^verbatim>\<open>GeoProcess.asArray(src)\<close>,
  \<^verbatim>\<open>GeoProcess.buildVRT(list_files, vrt)\<close> and \<^verbatim>\<open>GeoProcess.vrtToTiff(vrt, dst)\<close>. In
  Python 3 the attribute of the class is the plain function, whose first parameter is
  \<^verbatim>\<open>self\<close>: the arguments of the call are bound to the parameters from \<^verbatim>\<open>self\<close> on, and
  no instance is supplied. A call that leaves a parameter without default unbound, or
  passes too many arguments, raises TypeError before the body runs; so does GDAL when it
  is handed a value that is not a path where it needs one.
\<close>

fun GeoProcess_asArray ::
  "pyval list \<Rightarrow> world \<Rightarrow> (py_error + ndarray option) \<times> world" where
  "GeoProcess_asArray [self, PStr p] W = asArray W p None"
| "GeoProcess_asArray [self, PStr p, PNone] W = asArray W p None"
| "GeoProcess_asArray [self, PStr p, PInt n] W = asArray W p (Some n)"
| "GeoProcess_asArray args W = (Inl TypeError, W)"

section \<open>GeoProcess.buildVRT, vrtToTiff and merge\<close>

text \<open>Lines 127 to 129 and 146 to 148.\<close>

definition buildVRT :: "world \<Rightarrow> path list \<Rightarrow> path \<Rightarrow> (py_error + unit) \<times> world" where
  "buildVRT W list_files dst = (Inr (), gdal_BuildVRT W dst list_files True)"

definition vrtToTiff :: "world \<Rightarrow> path \<Rightarrow> path \<Rightarrow> (py_error + unit) \<times> world" where
  "vrtToTiff W vrtFile dst =
     (Inr (), gdal_Translate W
        \<lparr>t_destName = dst, t_srcDS = vrtFile, t_format = ''GTiff'',
         t_outputType = None, t_srcWin = None, t_noData = None\<rparr>)"

text \<open>\<^verbatim>\<open>gdal.BuildVRT\<close> takes one source name as well as a list of them.\<close>

fun GeoProcess_buildVRT :: "pyval list \<Rightarrow> world \<Rightarrow> (py_error + unit) \<times> world" where
  "GeoProcess_buildVRT [self, PStrList list_files, PStr dst] W = buildVRT W list_files dst"
| "GeoProcess_buildVRT [self, PStr src, PStr dst] W = buildVRT W [src] dst"
| "GeoProcess_buildVRT args W = (Inl TypeError, W)"

fun GeoProcess_vrtToTiff :: "pyval list \<Rightarrow> world \<Rightarrow> (py_error + unit) \<times> world" where
  "GeoProcess_vrtToTiff [self, PStr vrtFile, PStr dst] W = vrtToTiff W vrtFile dst"
| "GeoProcess_vrtToTiff args W = (Inl TypeError, W)"

text \<open>
  Lines 167 to 169. The instance call \<^verbatim>\<open>GeoProcess().merge(list_files, vrt, dst)\<close> binds
  the three parameters; the body then makes two class-qualified calls and \<^verbatim>\<open>os.remove\<close>.
\<close>

definition merge :: "world \<Rightarrow> path list \<Rightarrow> path \<Rightarrow> path \<Rightarrow> (py_error + unit) \<times> world" where
  "merge W list_files vrt dst =
     (case GeoProcess_buildVRT [PStrList list_files, PStr vrt] W of
        (Inl e, W1) \<Rightarrow> (Inl e, W1)
      | (Inr u, W1) \<Rightarrow>
          (case GeoProcess_vrtToTiff [PStr vrt, PStr dst] W1 of
             (Inl e, W2) \<Rightarrow> (Inl e, W2)
           | (Inr u, W2) \<Rightarrow> os_remove W2 vrt))"

section \<open>GeoProcess.tiling\<close>

text \<open>Line 216, the name \<^verbatim>\<open>dst + '_{}.tif'.format(tile)\<close> of the file of a tile.\<close>

definition tile_name :: "path \<Rightarrow> nat \<Rightarrow> path" where
  "tile_name dst tile = dst @ ''_'' @ show_nat tile @ ''.tif''"

text \<open>
  Lines 215 to 223, the body of the inner loop for one pair \<open>(i, j)\<close>: the tile counter
  goes up whether or not the tile is written.
\<close>

definition tile_body ::
  "path \<Rightarrow> path \<Rightarrow> int \<Rightarrow> int \<Rightarrow> gdal_type option \<Rightarrow> real option
     \<Rightarrow> int \<Rightarrow> int \<Rightarrow> nat \<Rightarrow> world \<Rightarrow> (py_error + nat) \<times> world" where
  "tile_body src dst size_w size_h outputType noData i j tile W =
     (let tile1 = tile + 1;
          destName = tile_name dst tile1 in
      if \<not> os_path_isfile W destName then
        (case outputType of
           None \<Rightarrow> (Inl UnboundLocalError, W)
         | Some t \<Rightarrow>
             (Inr tile1, gdal_Translate W
                \<lparr>t_destName = destName, t_srcDS = src, t_format = ''GTiff'',
                 t_outputType = Some t, t_srcWin = Some [i, j, size_w, size_h],
                 t_noData = noData\<rparr>))
      else (Inr tile1, W))"

text \<open>Lines 213 to 223, the two nested loops, for a source of \<open>w\<close> by \<open>h\<close> pixels.\<close>

definition tiling_loop ::
  "path \<Rightarrow> path \<Rightarrow> int \<Rightarrow> int \<Rightarrow> gdal_type option \<Rightarrow> real option
     \<Rightarrow> int \<Rightarrow> int \<Rightarrow> nat \<Rightarrow> world \<Rightarrow> (py_error + nat) \<times> world" where
  "tiling_loop src dst size_w size_h outputType noData w h tile W =
     (case py_range 0 w size_w of
        Inl e \<Rightarrow> (Inl e, W)
      | Inr is \<Rightarrow>
          py_for is
            (\<lambda>i tile W.
               case py_range 0 h size_h of
                 Inl e \<Rightarrow> (Inl e, W)
               | Inr js \<Rightarrow>
                   py_for js (tile_body src dst size_w size_h outputType noData i) tile W)
            tile W)"

text \<open>
  Lines 198 to 223. \<^verbatim>\<open>im = GeoProcess.asArray(src)\<close> is a class-qualified call with one
  argument. \<^verbatim>\<open>im.shape\<close> raises AttributeError when \<^verbatim>\<open>im\<close> is \<^verbatim>\<open>None\<close>; the first two
  entries of the shape are the height and the width.
\<close>

definition tiling ::
  "world \<Rightarrow> path \<Rightarrow> path \<Rightarrow> int \<Rightarrow> int \<Rightarrow> string \<Rightarrow> real option
     \<Rightarrow> (py_error + unit) \<times> world" where
  "tiling W src dst size_w size_h dtype noData =
     (let tile = 0 in
      case GeoProcess_asArray [PStr src] W of
        (Inl e, W1) \<Rightarrow> (Inl e, W1)
      | (Inr im, W1) \<Rightarrow>
          (let outputType = outputType_of dtype in
           case im of
             None \<Rightarrow> (Inl AttributeError, W1)
           | Some a \<Rightarrow>
               (let h = int (shape a ! 0); w = int (shape a ! 1) in
                case tiling_loop src dst size_w size_h outputType noData w h tile W1 of
                  (Inl e, W2) \<Rightarrow> (Inl e, W2)
                | (Inr n, W2) \<Rightarrow> (Inr (), W2))))"

section \<open>GeoProcess.resizing\<close>

text \<open>
  GDAL numbers its resampling algorithms (enumeration \<^verbatim>\<open>GDALResampleAlg\<close>, the constants
  \<^verbatim>\<open>gdal.GRA_NearestNeighbour\<close> and so on): 0 nearest neighbour, 1 bilinear, 2 cubic
  convolution, 3 cubic B-spline, 4 Lanczos windowed sinc, 5 average, 6 mode, 8 maximum,
  9 minimum, 10 median, 11 first quartile, 12 third quartile, 13 sum, 14 root mean
  square. The number 7 names no warping algorithm.
\<close>

datatype resample_alg =
    GRA_NearestNeighbour
  | GRA_Bilinear
  | GRA_Cubic
  | GRA_CubicSpline
  | GRA_Lanczos
  | GRA_Average
  | GRA_Mode
  | GRA_Max
  | GRA_Min
  | GRA_Med
  | GRA_Q1
  | GRA_Q3
  | GRA_Sum
  | GRA_RMS

definition GDALResampleAlg :: "int \<Rightarrow> resample_alg option" where
  "GDALResampleAlg n =
     (if n = 0 then Some GRA_NearestNeighbour
      else if n = 1 then Some GRA_Bilinear
      else if n = 2 then Some GRA_Cubic
      else if n = 3 then Some GRA_CubicSpline
      else if n = 4 then Some GRA_Lanczos
      else if n = 5 then Some GRA_Average
      else if n = 6 then Some GRA_Mode
      else if n = 8 then Some GRA_Max
      else if n = 9 then Some GRA_Min
      else if n = 10 then Some GRA_Med
      else if n = 11 then Some GRA_Q1
      else if n = 12 then Some GRA_Q3
      else if n = 13 then Some GRA_Sum
      else if n = 14 then Some GRA_RMS
      else None)"

text \<open>
  Lines 256 to 281. The two modes are two separate nested \<^verbatim>\<open>if\<close> statements, run one
  after the other. In each, \<^verbatim>\<open>print\<close> runs before the arguments of \<^verbatim>\<open>gdal.Warp\<close> are
  evaluated, so an unbound \<^verbatim>\<open>outputType\<close> raises after the message is printed.
\<close>

definition resize_by_size ::
  "world \<Rightarrow> path \<Rightarrow> path \<Rightarrow> int option \<Rightarrow> int option \<Rightarrow> gdal_type option
     \<Rightarrow> (py_error + unit) \<times> world" where
  "resize_by_size W src dst width height outputType =
     (let W1 = print W
                 (''New size : width = '' @ format_opt width @ '' / height = ''
                    @ format_opt height) in
      case outputType of
        None \<Rightarrow> (Inl UnboundLocalError, W1)
      | Some t \<Rightarrow>
          (Inr (), gdal_Warp W1
             \<lparr>w_dst = dst, w_src = src, w_width = width, w_height = height,
              w_xRes = None, w_yRes = None, w_outputType = t, w_resampleAlg = 3\<rparr>))"

definition resize_by_resolution ::
  "world \<Rightarrow> path \<Rightarrow> path \<Rightarrow> int option \<Rightarrow> int option \<Rightarrow> gdal_type option
     \<Rightarrow> (py_error + unit) \<times> world" where
  "resize_by_resolution W src dst xRes yRes outputType =
     (let W1 = print W
                 (''New resolution : xRes = '' @ format_opt xRes @ '' / yRes = ''
                    @ format_opt yRes) in
      case outputType of
        None \<Rightarrow> (Inl UnboundLocalError, W1)
      | Some t \<Rightarrow>
          (Inr (), gdal_Warp W1
             \<lparr>w_dst = dst, w_src = src, w_width = None, w_height = None,
              w_xRes = xRes, w_yRes = yRes, w_outputType = t, w_resampleAlg = 3\<rparr>))"

definition resizing ::
  "world \<Rightarrow> path \<Rightarrow> path \<Rightarrow> int option \<Rightarrow> int option \<Rightarrow> int option \<Rightarrow> int option
     \<Rightarrow> string \<Rightarrow> (py_error + unit) \<times> world" where
  "resizing W src dst width height xRes yRes dtype =
     (let outputType = outputType_of dtype in
      case (if xRes = None then
              (if yRes = None then resize_by_size W src dst width height outputType
               else (Inr (), W))
            else (Inr (), W)) of
        (Inl e, W1) \<Rightarrow> (Inl e, W1)
      | (Inr u, W1) \<Rightarrow>
          (if width = None then
             (if height = None then resize_by_resolution W1 src dst xRes yRes outputType
              else (Inr (), W1))
           else (Inr (), W1)))"

section \<open>GeoProcess.save_tiff\<close>

text \<open>
  The raster being written is the local variable \<^verbatim>\<open>outdata\<close>; it reaches the file when
  it is flushed. \<^verbatim>\<open>Create\<close> makes the file at once, with every pixel zero, and returns
  \<^verbatim>\<open>None\<close> when the width, the height or the band count is below 1 or the file cannot
  be made. \<^verbatim>\<open>Band.WriteArray\<close> raises ValueError for an array that is not of rank 2.
\<close>

definition blank :: "nat \<Rightarrow> nat \<Rightarrow> nat \<Rightarrow> dataset" where
  "blank xsize ysize nbands =
     \<lparr>RasterXSize = xsize, RasterYSize = ysize,
      bands = replicate nbands
                \<lparr>NoDataValue = None, pixels = replicate ysize (replicate xsize 0)\<rparr>,
      GeoTransform = [0, 1, 0, 0, 0, 1], Projection = []\<rparr>"

definition gdal_Create ::
  "world \<Rightarrow> path \<Rightarrow> nat \<Rightarrow> nat \<Rightarrow> nat \<Rightarrow> gdal_type \<Rightarrow> dataset option \<times> world" where
  "gdal_Create W name xsize ysize nbands t =
     (let e = Create name xsize ysize nbands t; W1 = log_event W e in
      if xsize < 1 \<or> ysize < 1 \<or> nbands < 1 \<or> \<not> completes W e then (None, W1)
      else (Some (blank xsize ysize nbands),
            W1\<lparr>fs := (fs W1)(name \<mapsto> Raster (blank xsize ysize nbands))\<rparr>))"

definition ds_SetGeoTransform :: "path \<Rightarrow> real list \<Rightarrow> dataset \<Rightarrow> world \<Rightarrow> dataset \<times> world" where
  "ds_SetGeoTransform name g out W =
     (out\<lparr>GeoTransform := g\<rparr>, log_event W (SetGeoTransform name g))"

definition ds_SetProjection :: "path \<Rightarrow> string \<Rightarrow> dataset \<Rightarrow> world \<Rightarrow> dataset \<times> world" where
  "ds_SetProjection name p out W =
     (out\<lparr>Projection := p\<rparr>, log_event W (SetProjection name p))"

definition band_SetNoDataValue ::
  "path \<Rightarrow> int \<Rightarrow> real \<Rightarrow> dataset \<Rightarrow> world \<Rightarrow> (py_error + dataset) \<times> world" where
  "band_SetNoDataValue name n v out W =
     (case GetRasterBand out n of
        None \<Rightarrow> (Inl AttributeError, W)
      | Some b \<Rightarrow>
          (Inr (out\<lparr>bands := (bands out)[nat (n - 1) := b\<lparr>NoDataValue := Some v\<rparr>]\<rparr>),
           log_event W (SetNoDataValue name n v)))"

definition band_WriteArray ::
  "path \<Rightarrow> int \<Rightarrow> ndarray \<Rightarrow> dataset \<Rightarrow> world \<Rightarrow> (py_error + dataset) \<times> world" where
  "band_WriteArray name n arr out W =
     (case GetRasterBand out n of
        None \<Rightarrow> (Inl AttributeError, W)
      | Some b \<Rightarrow>
          (case arr of
             Arr2 a \<Rightarrow>
               (Inr (out\<lparr>bands := (bands out)[nat (n - 1) := b\<lparr>pixels := a\<rparr>]\<rparr>),
                log_event W (WriteArray name n arr))
           | Arr3 a \<Rightarrow> (Inl ValueError, log_event W (WriteArray name n arr))))"

definition ds_FlushCache :: "path \<Rightarrow> dataset \<Rightarrow> world \<Rightarrow> world" where
  "ds_FlushCache name out W =
     (let W1 = log_event W (FlushCache name) in W1\<lparr>fs := (fs W1)(name \<mapsto> Raster out)\<rparr>)"

text \<open>\<^verbatim>\<open>nparray[:,:,k]\<close>: the plane at index \<open>k\<close> of the last axis of a rank-3 array.\<close>

definition slice_last :: "ndarray \<Rightarrow> nat \<Rightarrow> py_error + ndarray" where
  "slice_last arr k =
     (case arr of
        Arr2 a \<Rightarrow> Inl IndexError
      | Arr3 a \<Rightarrow>
          (if k < shape arr ! 2 then Inr (Arr2 (map (map (\<lambda>px. px ! k)) a))
           else Inl IndexError))"

text \<open>Lines 364 to 366, the body of the loop over the bands.\<close>

definition write_band ::
  "path \<Rightarrow> ndarray \<Rightarrow> real \<Rightarrow> int \<Rightarrow> dataset \<Rightarrow> world \<Rightarrow> (py_error + dataset) \<times> world" where
  "write_band name nparray nodata_value band out W =
     (case band_SetNoDataValue name band nodata_value out W of
        (Inl e, W1) \<Rightarrow> (Inl e, W1)
      | (Inr out1, W1) \<Rightarrow>
          (case slice_last nparray (nat (band - 1)) of
             Inl e \<Rightarrow> (Inl e, W1)
           | Inr plane \<Rightarrow> band_WriteArray name band plane out1 W1))"

text \<open>
  Lines 363 to 369. The loop over the bands runs only when there are at least two of
  them; otherwise the no-data value is set on band number \<^verbatim>\<open>bands\<close> and the whole array
  is handed to its \<^verbatim>\<open>WriteArray\<close>.
\<close>

definition write_bands ::
  "path \<Rightarrow> ndarray \<Rightarrow> real \<Rightarrow> nat \<Rightarrow> dataset \<Rightarrow> world \<Rightarrow> (py_error + dataset) \<times> world" where
  "write_bands name nparray nodata_value nbands out W =
     (if nbands > 1 then
        py_for (map int [1..<nbands + 1]) (write_band name nparray nodata_value) out W
      else
        (case band_SetNoDataValue name (int nbands) nodata_value out W of
           (Inl e, W1) \<Rightarrow> (Inl e, W1)
         | (Inr out1, W1) \<Rightarrow> band_WriteArray name (int nbands) nparray out1 W1))"

text \<open>
  Lines 345 to 370. The array's shape is \<open>(height, width)\<close> or \<open>(height, width, bands)\<close>;
  the source calls the height \<^verbatim>\<open>cols\<close> and the width \<^verbatim>\<open>rows\<close> and gives \<^verbatim>\<open>Create\<close>
  the width first, as GDAL expects. Both reference files are opened before the output is
  created; a reference that did not open is noticed only when it is used.
\<close>

definition save_tiff ::
  "world \<Rightarrow> path \<Rightarrow> ndarray \<Rightarrow> path \<Rightarrow> path \<Rightarrow> string \<Rightarrow> real
     \<Rightarrow> (py_error + unit) \<times> world" where
  "save_tiff W dst_filename nparray ref_proj ref_geom dtype nodata_value =
     (let proj_ref = gdal_Open W ref_proj;
          geom_ref = gdal_Open W ref_geom;
          cols = shape nparray ! 0;
          rows = shape nparray ! 1;
          nbands = (case nparray of Arr2 a \<Rightarrow> 1 | Arr3 a \<Rightarrow> shape nparray ! 2) in
      case outputType_of dtype of
        None \<Rightarrow> (Inl UnboundLocalError, W)
      | Some outputType \<Rightarrow>
          (case gdal_Create W dst_filename rows cols nbands outputType of
             (None, W1) \<Rightarrow> (Inl AttributeError, W1)
           | (Some out0, W1) \<Rightarrow>
               (case geom_ref of
                  None \<Rightarrow> (Inl AttributeError, W1)
                | Some g \<Rightarrow>
                    (case ds_SetGeoTransform dst_filename (GeoTransform g) out0 W1 of
                       (out1, W2) \<Rightarrow>
                         (case proj_ref of
                            None \<Rightarrow> (Inl AttributeError, W2)
                          | Some p \<Rightarrow>
                              (case ds_SetProjection dst_filename (Projection p) out1 W2 of
                                 (out2, W3) \<Rightarrow>
                                   (case write_bands dst_filename nparray nodata_value
                                           nbands out2 W3 of
                                      (Inl e, W4) \<Rightarrow> (Inl e, W4)
                                    | (Inr out3, W4) \<Rightarrow>
                                        (Inr (), ds_FlushCache dst_filename out3 W4))))))))"

section \<open>Notions used in the statements\<close>

text \<open>
  Four worlds to run the module in: one with no file at all, one holding a reference
  raster of 2 by 2 pixels, one holding a two-band and a one-band raster of 2 by 1 pixels,
  one holding a one-band raster of 1000 by 1000 pixels at \<^verbatim>\<open>mosaic.tif\<close>. GDAL completes
  whatever it is asked in each of them.
\<close>

definition world0 :: world where
  "world0 = \<lparr>fs = Map.empty, render = (\<lambda>e. None), completes = (\<lambda>e. True), stdout = [], trace = []\<rparr>"

definition world_ref :: world where
  "world_ref =
     \<lparr>fs = [''ref.tif'' \<mapsto> Raster
              \<lparr>RasterXSize = 2, RasterYSize = 2,
               bands = [\<lparr>NoDataValue = None, pixels = [[0, 0], [0, 0]]\<rparr>],
               GeoTransform = [500000, 10, 0, 4600000, 0, - 10], Projection = ''EPSG:32631''\<rparr>],
      render = (\<lambda>e. None), completes = (\<lambda>e. True), stdout = [], trace = []\<rparr>"

definition world_bands :: world where
  "world_bands =
     \<lparr>fs = [''two.tif'' \<mapsto> Raster
              \<lparr>RasterXSize = 2, RasterYSize = 1,
               bands = [\<lparr>NoDataValue = None, pixels = [[1, 2]]\<rparr>,
                        \<lparr>NoDataValue = None, pixels = [[3, 4]]\<rparr>],
               GeoTransform = [0, 1, 0, 0, 0, - 1], Projection = ''EPSG:4326''\<rparr>,
             ''one.tif'' \<mapsto> Raster
              \<lparr>RasterXSize = 2, RasterYSize = 1,
               bands = [\<lparr>NoDataValue = None, pixels = [[5, 6]]\<rparr>],
               GeoTransform = [0, 1, 0, 0, 0, - 1], Projection = ''EPSG:4326''\<rparr>],
      render = (\<lambda>e. None), completes = (\<lambda>e. True), stdout = [], trace = []\<rparr>"

definition world_mosaic :: world where
  "world_mosaic =
     \<lparr>fs = [''mosaic.tif'' \<mapsto> Raster
              \<lparr>RasterXSize = 1000, RasterYSize = 1000,
               bands = [\<lparr>NoDataValue = None, pixels = replicate 1000 (replicate 1000 0)\<rparr>],
               GeoTransform = [500000, 10, 0, 4600000, 0, - 10], Projection = ''EPSG:32631''\<rparr>],
      render = (\<lambda>e. None), completes = (\<lambda>e. True), stdout = [], trace = []\<rparr>"

text \<open>The Warp calls in a trace, and whether all of them ask for a given algorithm.\<close>

fun warp_calls :: "event list \<Rightarrow> warp_args list" where
  "warp_calls [] = []"
| "warp_calls (Warp a # es) = a # warp_calls es"
| "warp_calls (e # es) = warp_calls es"

definition resampled_with :: "resample_alg \<Rightarrow> event list \<Rightarrow> bool" where
  "resampled_with alg es =
     list_all (\<lambda>a. GDALResampleAlg (w_resampleAlg a) = Some alg) (warp_calls es)"

text \<open>
  The pixel windows the Translate calls in a trace ask for, and whether a window
  \<open>[x, y, xsize, ysize]\<close> lies within a source of \<open>w\<close> by \<open>h\<close> pixels.
\<close>

fun requested_windows :: "event list \<Rightarrow> int list list" where
  "requested_windows [] = []"
| "requested_windows (Translate a # es) =
     (case t_srcWin a of None \<Rightarrow> [] | Some win \<Rightarrow> [win]) @ requested_windows es"
| "requested_windows (e # es) = requested_windows es"

definition window_within :: "int \<Rightarrow> int \<Rightarrow> int list \<Rightarrow> bool" where
  "window_within w h win =
     (case win of
        [x, y, sx, sy] \<Rightarrow> 0 \<le> x \<and> 0 \<le> y \<and> x + sx \<le> w \<and> y + sy \<le> h
      | _ \<Rightarrow> False)"

text \<open>Reading a decimal numeral back, to tell the names of two tiles apart.\<close>

definition digit_val :: "char \<Rightarrow> nat" where
  "digit_val c = length (takeWhile (\<lambda>d. d \<noteq> c) ''0123456789'')"

definition read_nat :: "string \<Rightarrow> nat" where
  "read_nat s = foldl (\<lambda>a c. 10 * a + digit_val c) 0 s"

text \<open>
  The arguments tiling passes to Translate for tile \<open>k\<close> at offsets \<open>(i, j)\<close>, and one
  turn of its inner loop seen from outside: a tile whose file exists is left alone.
\<close>

definition tile_args ::
  "path \<Rightarrow> path \<Rightarrow> int \<Rightarrow> int \<Rightarrow> gdal_type \<Rightarrow> real option \<Rightarrow> nat \<times> int \<times> int \<Rightarrow> translate_args" where
  "tile_args src dst size_w size_h t noData x =
     (case x of (k, i, j) \<Rightarrow>
        \<lparr>t_destName = tile_name dst k, t_srcDS = src, t_format = ''GTiff'',
         t_outputType = Some t, t_srcWin = Some [i, j, size_w, size_h], t_noData = noData\<rparr>)"

definition skip_step :: "('x \<Rightarrow> path) \<Rightarrow> ('x \<Rightarrow> translate_args) \<Rightarrow> world \<Rightarrow> 'x \<Rightarrow> world" where
  "skip_step nm A W x = (if os_path_isfile W (nm x) then W else gdal_Translate W (A x))"

abbreviation tile_step ::
  "path \<Rightarrow> (nat \<times> int \<times> int \<Rightarrow> translate_args) \<Rightarrow> world \<Rightarrow> nat \<times> int \<times> int \<Rightarrow> world" where
  "tile_step dst A \<equiv> skip_step (\<lambda>x. tile_name dst (fst x)) A"

section \<open>Decimal names and ranges\<close>

lemma digit_val_digit_char: "d < 10 \<Longrightarrow> digit_val (digit_char d) = d"
proof -
  assume "d < 10"
  then have "d \<in> {0, 1, 2, 3, 4, 5, 6, 7, 8, 9}" by auto
  then show ?thesis by (auto simp add: digit_char_def digit_val_def)
qed

lemma read_nat_snoc: "read_nat (s @ [c]) = 10 * read_nat s + digit_val c"
  by (simp add: read_nat_def)

lemma read_nat_show_nat: "read_nat (show_nat n) = n"
proof (induction n rule: show_nat.induct)
  case (1 n)
  show ?case
  proof (cases "n < 10")
    case True
    then show ?thesis
      by (subst show_nat.simps) (simp add: read_nat_def digit_val_digit_char)
  next
    case False
    with 1 have "read_nat (show_nat (n div 10)) = n div 10" by simp
    with False show ?thesis
      by (subst show_nat.simps) (simp add: read_nat_snoc digit_val_digit_char)
  qed
qed

lemma show_nat_inject: "show_nat a = show_nat b \<Longrightarrow> a = b"
  by (metis read_nat_show_nat)

lemma tile_name_inject [simp]: "tile_name dst a = tile_name dst b \<longleftrightarrow> a = b"
  by (auto simp add: tile_name_def dest: show_nat_inject)

lemma range_up_eq:
  "0 < s \<Longrightarrow> range_up i stop s = map (\<lambda>a. i + int a * s) [0..<nat ((stop - i + s - 1) div s)]"
proof (induction i stop s rule: range_up.induct)
  case (1 i stop s)
  show ?case
  proof (cases "i < stop")
    case True
    have "(stop - i + s - 1) div s = (stop - i - 1 + s) div s" by (simp add: algebra_simps)
    also have "\<dots> = (stop - i - 1) div s + 1" using 1(2) by simp
    finally have d: "(stop - i + s - 1) div s = (stop - (i + s) + s - 1) div s + 1" by simp
    have nn: "0 \<le> (stop - (i + s) + s - 1) div s"
      using True 1(2) by (simp add: pos_imp_zdiv_nonneg_iff)
    have n: "nat ((stop - i + s - 1) div s) = Suc (nat ((stop - (i + s) + s - 1) div s))"
      using d nn by simp
    have "range_up i stop s = i # range_up (i + s) stop s"
      using True 1(2) by (subst range_up.simps) simp
    also have "range_up (i + s) stop s =
        map (\<lambda>a. i + s + int a * s) [0..<nat ((stop - (i + s) + s - 1) div s)]"
      using 1 True by simp
    finally show ?thesis
      unfolding n by (simp add: map_upt_Suc algebra_simps del: upt_Suc)
  next
    case False
    have "(stop - i + s - 1) div s \<le> (s - 1) div s"
      using False 1(2) by (intro zdiv_mono1) simp_all
    also have "(s - 1) div s = 0" using 1(2) by (simp add: div_pos_pos_trivial)
    finally have "(stop - i + s - 1) div s \<le> 0" .
    with False show ?thesis by (subst range_up.simps) simp
  qed
qed

lemma ceil_div_eq2:
  assumes "0 < (s::int)"
  shows "(w + s - 1) div s = - ((- w) div s)"
proof -
  define q r where "q = w div s" and "r = w mod s"
  have w: "w = s * q + r" by (simp add: q_def r_def)
  have r: "0 \<le> r" "r < s" using assms by (simp_all add: r_def)
  have "(w + s - 1) div s = (r + s - 1 + q * s) div s" by (simp add: w algebra_simps)
  also have "\<dots> = q + (r + s - 1) div s" using assms by simp
  finally have l: "(w + s - 1) div s = q + (r + s - 1) div s" .
  have rhs: "- ((- w) div s) = (if r = 0 then q else q + 1)"
    using assms by (simp add: zdiv_zminus1_eq_if q_def r_def)
  show ?thesis
  proof (cases "r = 0")
    case True
    then have "(r + s - 1) div s = 0" using assms by (simp add: div_pos_pos_trivial)
    with l rhs True show ?thesis by simp
  next
    case False
    have "(r + s - 1) div s = ((r - 1) + s) div s" by (simp add: algebra_simps)
    also have "\<dots> = (r - 1) div s + 1" using assms by simp
    also have "(r - 1) div s = 0" using r False by (simp add: div_pos_pos_trivial)
    finally show ?thesis using l rhs False by simp
  qed
qed

lemma ceil_div_eq: "0 < s \<Longrightarrow> (w + s - 1) div s = \<lceil>real_of_int w / real_of_int s\<rceil>"
  by (simp add: ceil_div_eq2 ceiling_divide_eq_div)

lemma range_up_0:
  "0 < s \<Longrightarrow> range_up 0 w s = map (\<lambda>a. int a * s) [0..<nat \<lceil>real_of_int w / real_of_int s\<rceil>]"
  using range_up_eq[where i=0 and stop=w and s=s] by (simp add: ceil_div_eq)

section \<open>asArray\<close>

lemma shape_planes:
  assumes "planes \<noteq> []" and "list_all (rect2 h w) planes"
  shows "shape (Arr3 planes) ! 0 = length planes"
    and "shape (Arr3 planes) ! 1 = h"
    and "0 < h \<Longrightarrow> shape (Arr3 planes) ! 2 = w"
  using assms by (cases planes; cases "hd planes"; simp add: rect2_def)+

lemma shape_rows:
  assumes "rect2 h w a" and "0 < h"
  shows "shape (Arr2 a) = [h, w]"
  using assms by (cases a) (simp_all add: rect2_def)

lemma shape_cube:
  assumes "rect3 h w n a" and "0 < h" and "0 < w"
  shows "shape (Arr3 a) = [h, w, n]"
  using assms by (cases a; cases "hd a"; simp add: rect3_def rect2_def)

lemma rect3_stack_last: "rect3 h w (length planes) (stack_last h w planes)"
  by (simp add: rect3_def rect2_def stack_last_def list_all_iff)

lemma stack_last_nth:
  "y < h \<Longrightarrow> x < w \<Longrightarrow> k < length planes \<Longrightarrow> stack_last h w planes ! y ! x ! k = planes ! k ! y ! x"
  by (simp add: stack_last_def)

lemma wf_band: "wf_dataset ds \<Longrightarrow> k < RasterCount ds \<Longrightarrow>
    rect2 (RasterYSize ds) (RasterXSize ds) (pixels (bands ds ! k))"
  by (simp add: wf_dataset_def RasterCount_def list_all_length)

text \<open>
  C4. For a path that opens as a well-formed raster, asArray returns: with no band asked
  for and more than one band in the source, a rank-3 array of shape (height, width,
  bands) whose entry \<open>(y, x, k)\<close> is pixel \<open>(y, x)\<close> of the source's band \<open>k\<close>, counted
  from 0 in source order; with no band asked for and exactly one band, the rank-2 array
  (height, width) of that band; with band \<open>n\<close> asked for, \<open>n\<close> counted from 1 and at
  most the band count, the rank-2 array of band \<open>n\<close> alone. The world is left as it was.
\<close>

theorem asArray_result:
  assumes o: "gdal_Open W p = Some ds" and wf: "wf_dataset ds"
  shows "(1 < RasterCount ds \<longrightarrow>
           (\<exists>a. asArray W p None = (Inr (Some (Arr3 a)), W) \<and>
                rect3 (RasterYSize ds) (RasterXSize ds) (RasterCount ds) a \<and>
                (\<forall>y<RasterYSize ds. \<forall>x<RasterXSize ds. \<forall>k<RasterCount ds.
                   a ! y ! x ! k = pixels (bands ds ! k) ! y ! x))) \<and>
         (RasterCount ds = 1 \<longrightarrow>
           asArray W p None = (Inr (Some (Arr2 (pixels (bands ds ! 0)))), W) \<and>
           rect2 (RasterYSize ds) (RasterXSize ds) (pixels (bands ds ! 0))) \<and>
         (1 \<le> n \<and> n \<le> int (RasterCount ds) \<longrightarrow>
           asArray W p (Some n) = (Inr (Some (Arr2 (pixels (bands ds ! nat (n - 1))))), W) \<and>
           rect2 (RasterYSize ds) (RasterXSize ds) (pixels (bands ds ! nat (n - 1))))"
proof (intro conjI impI)
  assume m: "1 < RasterCount ds"
  let ?planes = "map pixels (bands ds)"
  let ?Y = "RasterYSize ds" and ?X = "RasterXSize ds"
  have ne: "?planes \<noteq> []" using m by (auto simp add: RasterCount_def)
  have re: "list_all (rect2 ?Y ?X) ?planes"
    using wf by (simp add: wf_dataset_def list_all_iff)
  have len: "length ?planes = RasterCount ds" by (simp add: RasterCount_def)
  have r: "asArray W p None =
      (Inr (Some (Arr3 (stack_last ?Y (shape (Arr3 ?planes) ! 2) ?planes))), W)"
    using m ne shape_planes(2)[OF ne re]
    by (simp add: asArray_def o ReadAsArray_def np_dstack_def del: shape.simps)
  show "\<exists>a. asArray W p None = (Inr (Some (Arr3 a)), W) \<and>
            rect3 ?Y ?X (RasterCount ds) a \<and>
            (\<forall>y<?Y. \<forall>x<?X. \<forall>k<RasterCount ds. a ! y ! x ! k = pixels (bands ds ! k) ! y ! x)"
  proof (cases "?Y = 0")
    case True
    then have "stack_last ?Y (shape (Arr3 ?planes) ! 2) ?planes = []"
      by (simp add: stack_last_def)
    with r True show ?thesis by (simp add: rect3_def)
  next
    case False
    then have "shape (Arr3 ?planes) ! 2 = ?X" using shape_planes(3)[OF ne re] by simp
    with r have r': "asArray W p None = (Inr (Some (Arr3 (stack_last ?Y ?X ?planes))), W)"
      by simp
    have "rect3 ?Y ?X (RasterCount ds) (stack_last ?Y ?X ?planes)"
      using rect3_stack_last[of ?Y ?X ?planes] len by simp
    moreover have "\<forall>y<?Y. \<forall>x<?X. \<forall>k<RasterCount ds.
        stack_last ?Y ?X ?planes ! y ! x ! k = pixels (bands ds ! k) ! y ! x"
      using len by (simp add: stack_last_nth RasterCount_def)
    ultimately show ?thesis using r' by blast
  qed
next
  assume "RasterCount ds = 1"
  then show "asArray W p None = (Inr (Some (Arr2 (pixels (bands ds ! 0)))), W)"
    by (simp add: asArray_def o ReadAsArray_def)
next
  assume "RasterCount ds = 1"
  then show "rect2 (RasterYSize ds) (RasterXSize ds) (pixels (bands ds ! 0))"
    using wf_band[OF wf, of 0] by simp
next
  assume n: "1 \<le> n \<and> n \<le> int (RasterCount ds)"
  then show "asArray W p (Some n) = (Inr (Some (Arr2 (pixels (bands ds ! nat (n - 1))))), W)"
    by (simp add: asArray_def o GetRasterBand_def BandReadAsArray_def)
next
  assume n: "1 \<le> n \<and> n \<le> int (RasterCount ds)"
  then have "nat (n - 1) < RasterCount ds" by linarith
  then show "rect2 (RasterYSize ds) (RasterXSize ds) (pixels (bands ds ! nat (n - 1)))"
    using wf_band[OF wf] by simp
qed

text \<open>
  The three cases of C4 on the world \<open>world_bands\<close>: two bands stacked on the last axis,
  one band as it is, band 2 of the two-band raster.
\<close>

theorem asArray_result_witness:
  "asArray world_bands ''two.tif'' None = (Inr (Some (Arr3 [[[1, 3], [2, 4]]])), world_bands) \<and>
   asArray world_bands ''one.tif'' None = (Inr (Some (Arr2 [[5, 6]])), world_bands) \<and>
   asArray world_bands ''two.tif'' (Some 2) = (Inr (Some (Arr2 [[3, 4]])), world_bands)"
proof -
  let ?two = "\<lparr>RasterXSize = 2, RasterYSize = 1,
               bands = [\<lparr>NoDataValue = None, pixels = [[1, 2]]\<rparr>,
                        \<lparr>NoDataValue = None, pixels = [[3, 4]]\<rparr>],
               GeoTransform = [0, 1, 0, 0, 0, - 1], Projection = ''EPSG:4326''\<rparr>"
  let ?one = "\<lparr>RasterXSize = 2, RasterYSize = 1,
               bands = [\<lparr>NoDataValue = None, pixels = [[5, 6]]\<rparr>],
               GeoTransform = [0, 1, 0, 0, 0, - 1], Projection = ''EPSG:4326''\<rparr>"
  have o2: "gdal_Open world_bands ''two.tif'' = Some ?two"
    by (simp add: world_bands_def gdal_Open_def)
  have o1: "gdal_Open world_bands ''one.tif'' = Some ?one"
    by (simp add: world_bands_def gdal_Open_def)
  have w2: "wf_dataset ?two" by (simp add: wf_dataset_def rect2_def)
  have w1: "wf_dataset ?one" by (simp add: wf_dataset_def rect2_def)
  have c2: "RasterCount ?two = 2" and c1: "RasterCount ?one = 1" by (simp_all add: RasterCount_def)
  from asArray_result [OF o2 w2, of 2] c2
  obtain a where a: "asArray world_bands ''two.tif'' None = (Inr (Some (Arr3 a)), world_bands)"
      and r: "rect3 1 2 2 a"
      and e: "\<forall>y<1. \<forall>x<2. \<forall>k<2. a ! y ! x ! k = pixels (bands ?two ! k) ! y ! x"
      and b: "asArray world_bands ''two.tif'' (Some 2) = (Inr (Some (Arr2 [[3, 4]])), world_bands)"
    by auto
  have "a = [[[1, 3], [2, 4]]]"
  proof -
    from r obtain p where ap: "a = [p]" and rp: "rect2 2 2 p"
      by (cases a) (auto simp add: rect3_def)
    from rp obtain q1 q2 where p: "p = [q1, q2]" and l: "length q1 = 2" "length q2 = 2"
      by (cases p; cases "tl p") (auto simp add: rect2_def)
    from l obtain u1 u2 v1 v2 where q: "q1 = [u1, u2]" "q2 = [v1, v2]"
      by (cases q1; cases "tl q1"; cases q2; cases "tl q2") auto
    have "u1 = 1" using e[rule_format, of 0 0 0] by (simp add: ap p q)
    moreover have "u2 = 3" using e[rule_format, of 0 0 1] by (simp add: ap p q)
    moreover have "v1 = 2" using e[rule_format, of 0 1 0] by (simp add: ap p q)
    moreover have "v2 = 4" using e[rule_format, of 0 1 1] by (simp add: ap p q)
    ultimately show ?thesis by (simp add: ap p q)
  qed
  moreover from asArray_result [OF o1 w1, of 0] c1
  have "asArray world_bands ''one.tif'' None = (Inr (Some (Arr2 [[5, 6]])), world_bands)"
    by simp
  ultimately show ?thesis using a b by simp
qed

text \<open>
  C5, as the code has it. For a path that cannot be opened, asArray prints
  \<^verbatim>\<open>No data in\<close> followed by the path and returns \<^verbatim>\<open>None\<close>: the call ends normally, no
  array is returned and nothing is raised.
\<close>

theorem asArray_unopened:
  "gdal_Open W p = None \<Longrightarrow>
     asArray W p band = (Inr None, W\<lparr>stdout := stdout W @ [''No data in '' @ p]\<rparr>)"
  by (simp add: asArray_def print_def)

theorem asArray_unopened_witness:
  "gdal_Open world0 ''missing.tif'' = None \<and>
   asArray world0 ''missing.tif'' None =
     (Inr None, world0\<lparr>stdout := [''No data in missing.tif'']\<rparr>)"
  using asArray_unopened [of world0 "''missing.tif''" None]
  by (simp add: world0_def gdal_Open_def)

text \<open>
  C5, as the claim has it, fails: on the empty world the call for \<^verbatim>\<open>missing.tif\<close> does
  not end in an error, it returns \<^verbatim>\<open>None\<close>.
\<close>

theorem asArray_unopened_no_error:
  "fst (asArray world0 ''missing.tif'' None) = Inr None"
  by (simp add: asArray_def print_def world0_def gdal_Open_def)

section \<open>merge\<close>

text \<open>
  C1. A call of merge does not run build, then materialize, then delete: the first
  statement of its body, \<^verbatim>\<open>GeoProcess.buildVRT(list_files, vrt)\<close>, hands two arguments to a
  function of three parameters, so every call raises TypeError before GDAL or the file
  system is touched. Nothing is built, nothing is materialized and the temporary file is
  neither made nor deleted.
\<close>

theorem merge_raises_TypeError: "merge W list_files vrt dst = (Inl TypeError, W)"
  by (simp add: merge_def)

section \<open>tiling\<close>

text \<open>
  C3. Run again on a job where some tiles are missing, tiling writes none of them: the
  first call of its body, \<^verbatim>\<open>GeoProcess.asArray(src)\<close>, hands one argument to a function of
  two required parameters, so every call raises TypeError before the loop over the tiles
  is reached and the world is left as it was.
\<close>

theorem tiling_raises_TypeError:
  "tiling W src dst size_w size_h dtype noData = (Inl TypeError, W)"
  by (simp add: tiling_def)

text \<open>
  C2. On a readable source of 1000 by 1000 pixels, with tiles of 400 by 400 and no tile
  file yet, tiling produces none of the 9 tiles: it raises TypeError at
  \<^verbatim>\<open>GeoProcess.asArray(src)\<close>, asks GDAL for no window and leaves \<^verbatim>\<open>mosaic.tif\<close> the only
  file.
\<close>

theorem tiling_scenario_produces_no_tile:
  "gdal_Open world_mosaic ''mosaic.tif'' \<noteq> None \<and>
   tiling world_mosaic ''mosaic.tif'' ''out'' 400 400 ''Float32'' None =
     (Inl TypeError, world_mosaic) \<and>
   requested_windows
     (trace (snd (tiling world_mosaic ''mosaic.tif'' ''out'' 400 400 ''Float32'' None))) = [] \<and>
   dom (fs (snd (tiling world_mosaic ''mosaic.tif'' ''out'' 400 400 ''Float32'' None))) =
     {''mosaic.tif''}"
proof -
  have t: "tiling world_mosaic ''mosaic.tif'' ''out'' 400 400 ''Float32'' None =
      (Inl TypeError, world_mosaic)"
    by (simp add: tiling_def)
  have o: "gdal_Open world_mosaic ''mosaic.tif'' \<noteq> None"
    by (simp add: world_mosaic_def gdal_Open_def)
  have z: "trace world_mosaic = []" "dom (fs world_mosaic) = {''mosaic.tif''}"
    by (simp_all add: world_mosaic_def)
  show ?thesis using o z by (simp add: t)
qed

subsection \<open>The loop over the tiles\<close>

text \<open>
  tiling never reaches its loop. What follows is about the loop taken alone, lines 213 to
  223, given the width and the height of the source. For a pixel type the module knows
  the two nested loops do what a fold of \<open>skip_step\<close> over the numbered pairs \<open>(i, j)\<close>
  does.
\<close>

lemma tile_args_dest [simp]: "t_destName (tile_args src dst sw sh t nd x) = tile_name dst (fst x)"
  by (simp add: tile_args_def split: prod.splits)

lemma tile_inner_fold:
  "py_for js (tile_body src dst sw sh (Some t) nd i) tile W =
     (Inr (tile + length js),
      foldl (tile_step dst (tile_args src dst sw sh t nd)) W
        (enumerate (Suc tile) (map (Pair i) js)))"
  by (induction js arbitrary: tile W)
     (simp_all add: tile_body_def skip_step_def tile_args_def Let_def)

lemma tile_outer_fold:
  assumes "0 < sh"
  shows "py_for is
           (\<lambda>i tile W.
              case py_range 0 h sh of
                Inl e \<Rightarrow> (Inl e, W)
              | Inr js \<Rightarrow> py_for js (tile_body src dst sw sh (Some t) nd i) tile W)
           tile W =
         (Inr (tile + length is * length (range_up 0 h sh)),
          foldl (tile_step dst (tile_args src dst sw sh t nd)) W
            (enumerate (Suc tile) (List.product is (range_up 0 h sh))))"
  using assms
  by (induction "is" arbitrary: tile W)
     (simp_all add: py_range_def tile_inner_fold enumerate_append_eq algebra_simps)

lemma tiling_loop_fold:
  assumes "0 < sw" and "0 < sh"
  shows "tiling_loop src dst sw sh (Some t) nd w h tile W =
         (Inr (tile + length (range_up 0 w sw) * length (range_up 0 h sh)),
          foldl (tile_step dst (tile_args src dst sw sh t nd)) W
            (enumerate (Suc tile) (List.product (range_up 0 w sw) (range_up 0 h sh))))"
proof -
  have "py_range 0 w sw = Inr (range_up 0 w sw)" using assms by (simp add: py_range_def)
  then show ?thesis
    unfolding tiling_loop_def by (simp only: sum.case tile_outer_fold[OF assms(2)])
qed

lemma step_fields [simp]:
  "render (skip_step nm A W x) = render W"
  "completes (skip_step nm A W x) = completes W"
  "stdout (skip_step nm A W x) = stdout W"
  by (simp_all add: skip_step_def gdal_Translate_def gdal_run_def log_event_def Let_def)

lemma step_trace:
  "trace (skip_step nm A W x) =
     trace W @ (if os_path_isfile W (nm x) then [] else [Translate (A x)])"
  by (simp add: skip_step_def gdal_Translate_def gdal_run_def log_event_def Let_def)

lemma step_fs_existing:
  "t_destName (A x) = nm x \<Longrightarrow> fs W p \<noteq> None \<Longrightarrow> fs (skip_step nm A W x) p = fs W p"
  by (auto simp add: skip_step_def gdal_Translate_def gdal_run_def log_event_def Let_def
        os_path_isfile_def)

lemma step_isfile:
  "t_destName (A x) = nm x \<Longrightarrow> p \<noteq> nm x \<Longrightarrow>
     os_path_isfile (skip_step nm A W x) p = os_path_isfile W p"
  by (simp add: skip_step_def gdal_Translate_def gdal_run_def log_event_def Let_def
        os_path_isfile_def)

lemma step_dom:
  "t_destName (A x) = nm x \<Longrightarrow>
     dom (fs (skip_step nm A W x)) =
       dom (fs W) \<union> (if completes W (Translate (A x)) then {nm x} else {})"
  by (auto simp add: skip_step_def gdal_Translate_def gdal_run_def log_event_def Let_def
        os_path_isfile_def)

lemma fold_fields [simp]:
  "render (foldl (skip_step nm A) W L) = render W"
  "completes (foldl (skip_step nm A) W L) = completes W"
  "stdout (foldl (skip_step nm A) W L) = stdout W"
  by (induction L arbitrary: W) simp_all

lemma fold_existing:
  assumes hA: "\<And>x. t_destName (A x) = nm x"
  shows "fs W p \<noteq> None \<Longrightarrow> fs (foldl (skip_step nm A) W L) p = fs W p"
  by (induction L arbitrary: W) (simp_all add: step_fs_existing hA)

lemma fold_dom:
  assumes hA: "\<And>x. t_destName (A x) = nm x"
  shows "dom (fs (foldl (skip_step nm A) W L)) =
     dom (fs W) \<union> nm ` {x \<in> set L. completes W (Translate (A x))}"
  by (induction L arbitrary: W) (auto simp add: step_dom hA)

lemma fold_trace:
  assumes hA: "\<And>x. t_destName (A x) = nm x"
  shows "distinct (map nm L) \<Longrightarrow>
     trace (foldl (skip_step nm A) W L) =
       trace W @ map (\<lambda>x. Translate (A x)) (filter (\<lambda>x. \<not> os_path_isfile W (nm x)) L)"
proof (induction L arbitrary: W)
  case Nil
  show ?case by simp
next
  case (Cons x L)
  let ?W1 = "skip_step nm A W x"
  have d: "distinct (map nm L)" and nx: "nm x \<notin> nm ` set L" using Cons.prems by auto
  have f: "filter (\<lambda>y. \<not> os_path_isfile ?W1 (nm y)) L =
           filter (\<lambda>y. \<not> os_path_isfile W (nm y)) L"
  proof (rule filter_cong[OF refl])
    fix y assume "y \<in> set L"
    then have "nm y \<noteq> nm x" using nx by (metis imageI)
    then show "(\<not> os_path_isfile ?W1 (nm y)) = (\<not> os_path_isfile W (nm y))"
      by (simp add: step_isfile hA)
  qed
  show ?case using Cons.IH[OF d, of ?W1] by (simp add: f step_trace)
qed

lemma distinct_tile_names:
  "distinct (map (\<lambda>x. tile_name dst (fst x)) (enumerate n xs))"
proof -
  have "map (\<lambda>x. tile_name dst (fst x)) (enumerate n xs) = map (tile_name dst) (map fst (enumerate n xs))"
    by (simp only: map_map o_def)
  moreover have "distinct (map (tile_name dst) (map fst (enumerate n xs)))"
    by (simp add: distinct_map inj_on_def)
  ultimately show ?thesis by simp
qed

text \<open>
  For a source of \<open>w\<close> by \<open>h\<close> pixels and tile sizes above 0,
  the loop of tiling visits \<open>ceil(w / size_w) * ceil(h / size_h)\<close> pairs \<open>(i, j)\<close>, the
  width offset \<open>i\<close> in the outer loop, and counts them from 1. Where none of the files
  \<^verbatim>\<open>{dst}_{k}.tif\<close> exists it calls Translate once per pair, in that order, for the file of
  that number, and the window it asks for is \<open>[i, j, size_w, size_h]\<close>: the full tile size
  at every offset, also where the tile reaches past the right or bottom edge of the
  source. When GDAL completes the calls, the files made are exactly those, one per
  number. What is extracted for a window that reaches past the edge is left to GDAL.
\<close>

lemma tiling_loop_fresh:
  assumes sw: "0 < size_w" and sh: "0 < size_h"
    and nw: "nw = nat \<lceil>real_of_int w / real_of_int size_w\<rceil>"
    and nh: "nh = nat \<lceil>real_of_int h / real_of_int size_h\<rceil>"
    and fresh: "\<forall>k\<in>{1..nw * nh}. \<not> os_path_isfile W (tile_name dst k)"
  shows "fst (tiling_loop src dst size_w size_h (Some t) noData w h 0 W) = Inr (nw * nh) \<and>
         trace (snd (tiling_loop src dst size_w size_h (Some t) noData w h 0 W)) =
           trace W @
           map (\<lambda>(k, i, j). Translate
                  \<lparr>t_destName = tile_name dst k, t_srcDS = src, t_format = ''GTiff'',
                   t_outputType = Some t, t_srcWin = Some [i, j, size_w, size_h],
                   t_noData = noData\<rparr>)
             (enumerate 1 (List.product (map (\<lambda>a. int a * size_w) [0..<nw])
                                        (map (\<lambda>b. int b * size_h) [0..<nh]))) \<and>
         ((\<forall>e. completes W e) \<longrightarrow>
            dom (fs (snd (tiling_loop src dst size_w size_h (Some t) noData w h 0 W))) =
              dom (fs W) \<union> tile_name dst ` {1..nw * nh} \<and>
            card (tile_name dst ` {1..nw * nh}) = nw * nh)"
proof -
  let ?A = "tile_args src dst size_w size_h t noData"
  let ?nm = "\<lambda>x::nat \<times> int \<times> int. tile_name dst (fst x)"
  let ?is = "map (\<lambda>a. int a * size_w) [0..<nw]"
  let ?js = "map (\<lambda>b. int b * size_h) [0..<nh]"
  let ?plan = "enumerate 1 (List.product ?is ?js)"
  have ri: "range_up 0 w size_w = ?is" using range_up_0[OF sw] nw by simp
  have rj: "range_up 0 h size_h = ?js" using range_up_0[OF sh] nh by simp
  have r: "tiling_loop src dst size_w size_h (Some t) noData w h 0 W =
      (Inr (nw * nh), foldl (skip_step ?nm ?A) W ?plan)"
    using tiling_loop_fold[OF sw sh, of src dst t noData w h 0 W] by (simp add: ri rj)
  have keys: "fst ` set ?plan = {1..nw * nh}"
  proof -
    have "fst ` set ?plan = set (map fst ?plan)" by (simp only: set_map)
    also have "map fst ?plan = [1..<Suc (nw * nh)]" by simp
    also have "set [1..<Suc (nw * nh)] = {1..nw * nh}"
      by (simp only: set_upt atLeastLessThanSuc_atLeastAtMost)
    finally show ?thesis .
  qed
  have fr: "filter (\<lambda>x. \<not> os_path_isfile W (?nm x)) ?plan = ?plan"
  proof (rule filter_True, rule ballI)
    fix x assume "x \<in> set ?plan"
    then have "fst x \<in> fst ` set ?plan" by (rule imageI)
    with keys fresh show "\<not> os_path_isfile W (?nm x)" by simp
  qed
  have hA: "\<And>x. t_destName (?A x) = ?nm x" by simp
  have tr: "trace (foldl (skip_step ?nm ?A) W ?plan) =
      trace W @ map (\<lambda>x. Translate (?A x)) ?plan"
    using fold_trace[of ?A ?nm ?plan W, OF hA distinct_tile_names] fr by simp
  have eqA: "(\<lambda>x. Translate (?A x)) =
      (\<lambda>(k, i, j). Translate
                  \<lparr>t_destName = tile_name dst k, t_srcDS = src, t_format = ''GTiff'',
                   t_outputType = Some t, t_srcWin = Some [i, j, size_w, size_h],
                   t_noData = noData\<rparr>)"
    by (auto simp add: tile_args_def)
  have dm: "dom (fs (foldl (skip_step ?nm ?A) W ?plan)) = dom (fs W) \<union> tile_name dst ` {1..nw * nh}"
    if "\<forall>e. completes W e"
  proof -
    have "{x \<in> set ?plan. completes W (Translate (?A x))} = set ?plan" using that by simp
    then have "dom (fs (foldl (skip_step ?nm ?A) W ?plan)) = dom (fs W) \<union> ?nm ` set ?plan"
      using fold_dom[of ?A ?nm W ?plan, OF hA] by simp
    also have "?nm ` set ?plan = tile_name dst ` (fst ` set ?plan)" by (simp only: image_image)
    finally show ?thesis by (simp only: keys)
  qed
  have cd: "card (tile_name dst ` {1..nw * nh}) = nw * nh"
    by (simp add: card_image inj_on_def)
  show ?thesis using tr dm cd by (simp add: r eqA)
qed

text \<open>
  For a source of 1000 by 1000 pixels, tiles of 400 by 400 and an empty destination the
  loop counts 9 tiles and makes 9 files.
\<close>

lemma tiling_loop_fresh_witness:
  "(0::int) < 400 \<and> (3::nat) = nat \<lceil>real_of_int 1000 / real_of_int 400\<rceil> \<and>
   fst (tiling_loop ''mosaic.tif'' ''out'' 400 400 (Some GDT_Float32) None 1000 1000 0 world0)
     = Inr (3 * 3) \<and>
   dom (fs (snd (tiling_loop ''mosaic.tif'' ''out'' 400 400 (Some GDT_Float32) None
                   1000 1000 0 world0))) = tile_name ''out'' ` {1..3 * 3}"
proof -
  have c: "(3::nat) = nat \<lceil>real_of_int 1000 / real_of_int 400\<rceil>" by simp
  have f: "\<forall>k\<in>{1..3 * 3}. \<not> os_path_isfile world0 (tile_name ''out'' k)"
    by (simp add: world0_def os_path_isfile_def)
  have a: "\<forall>e. completes world0 e" by (simp add: world0_def)
  have z: "dom (fs world0) = {}" by (simp add: world0_def)
  note t = tiling_loop_fresh [where size_w = 400 and size_h = 400 and nw = 3 and nh = 3
      and w = 1000 and h = 1000 and W = world0 and dst = "''out''" and src = "''mosaic.tif''"
      and t = GDT_Float32 and noData = None,
      OF zero_less_numeral zero_less_numeral c c f]
  have 1: "fst (tiling_loop ''mosaic.tif'' ''out'' 400 400 (Some GDT_Float32) None 1000 1000 0
                 world0) = Inr (3 * 3)"
    using t by (rule conjunct1)
  have 2: "dom (fs (snd (tiling_loop ''mosaic.tif'' ''out'' 400 400 (Some GDT_Float32) None
                   1000 1000 0 world0))) = dom (fs world0) \<union> tile_name ''out'' ` {1..3 * 3}"
    using t a by blast
  show ?thesis
  proof (intro conjI)
    show "(0::int) < 400" by simp
    show "(3::nat) = nat \<lceil>real_of_int 1000 / real_of_int 400\<rceil>" by (rule c)
    show "fst (tiling_loop ''mosaic.tif'' ''out'' 400 400 (Some GDT_Float32) None 1000 1000 0
                 world0) = Inr (3 * 3)" by (rule 1)
    show "dom (fs (snd (tiling_loop ''mosaic.tif'' ''out'' 400 400 (Some GDT_Float32) None
                   1000 1000 0 world0))) = tile_name ''out'' ` {1..3 * 3}"
      using 2 by (simp only: z Un_empty_left)
  qed
qed

text \<open>
  There the windows the loop asks for at the right and bottom edges reach to pixel 1200
  of a source of 1000 pixels: the loop does not clip them.
\<close>

lemma tiling_requests_unclipped_windows:
  "requested_windows
     (trace (snd (tiling_loop ''mosaic.tif'' ''out'' 400 400 (Some GDT_Float32) None
                    1000 1000 0 world0))) =
     [[0, 0, 400, 400], [0, 400, 400, 400], [0, 800, 400, 400],
      [400, 0, 400, 400], [400, 400, 400, 400], [400, 800, 400, 400],
      [800, 0, 400, 400], [800, 400, 400, 400], [800, 800, 400, 400]] \<and>
   \<not> list_all (window_within 1000 1000)
       (requested_windows
          (trace (snd (tiling_loop ''mosaic.tif'' ''out'' 400 400 (Some GDT_Float32) None
                         1000 1000 0 world0))))"
  by (simp add: tiling_loop_def py_range_def range_up.simps tile_body_def tile_name_def
        show_nat.simps digit_char_def os_path_isfile_def gdal_Translate_def gdal_run_def
        log_event_def world0_def Let_def window_within_def)

text \<open>
  Run on a destination where some of the files exist, the loop keeps the numbering,
  calls Translate for the missing files only, as many times as there are missing files,
  and leaves every file that existed as it was.
\<close>

lemma tiling_loop_resume_count:
  assumes sw: "0 < size_w" and sh: "0 < size_h"
    and nw: "nw = nat \<lceil>real_of_int w / real_of_int size_w\<rceil>"
    and nh: "nh = nat \<lceil>real_of_int h / real_of_int size_h\<rceil>"
  shows "fst (tiling_loop src dst size_w size_h (Some t) noData w h 0 W) = Inr (nw * nh) \<and>
         (\<exists>new. trace (snd (tiling_loop src dst size_w size_h (Some t) noData w h 0 W)) =
                  trace W @ new \<and>
                length new =
                  nw * nh - length (filter (\<lambda>k. os_path_isfile W (tile_name dst k)) [1..<Suc (nw * nh)]) \<and>
                new = map (\<lambda>(k, i, j). Translate
                  \<lparr>t_destName = tile_name dst k, t_srcDS = src, t_format = ''GTiff'',
                   t_outputType = Some t, t_srcWin = Some [i, j, size_w, size_h],
                   t_noData = noData\<rparr>)
                  (filter (\<lambda>(k, i, j). \<not> os_path_isfile W (tile_name dst k))
                     (enumerate 1 (List.product (map (\<lambda>a. int a * size_w) [0..<nw])
                                        (map (\<lambda>b. int b * size_h) [0..<nh]))))) \<and>
         (\<forall>p. os_path_isfile W p \<longrightarrow>
            fs (snd (tiling_loop src dst size_w size_h (Some t) noData w h 0 W)) p = fs W p)"
proof -
  let ?A = "tile_args src dst size_w size_h t noData"
  let ?nm = "\<lambda>x::nat \<times> int \<times> int. tile_name dst (fst x)"
  let ?is = "map (\<lambda>a. int a * size_w) [0..<nw]"
  let ?js = "map (\<lambda>b. int b * size_h) [0..<nh]"
  let ?plan = "enumerate 1 (List.product ?is ?js)"
  let ?P = "\<lambda>k. os_path_isfile W (tile_name dst k)"
  have ri: "range_up 0 w size_w = ?is" using range_up_0[OF sw] nw by simp
  have rj: "range_up 0 h size_h = ?js" using range_up_0[OF sh] nh by simp
  have r: "tiling_loop src dst size_w size_h (Some t) noData w h 0 W =
      (Inr (nw * nh), foldl (skip_step ?nm ?A) W ?plan)"
    using tiling_loop_fold[OF sw sh, of src dst t noData w h 0 W] by (simp add: ri rj)
  have hA: "\<And>x. t_destName (?A x) = ?nm x" by simp
  have tr: "trace (foldl (skip_step ?nm ?A) W ?plan) =
      trace W @ map (\<lambda>x. Translate (?A x)) (filter (\<lambda>x. \<not> ?P (fst x)) ?plan)"
    using fold_trace[of ?A ?nm ?plan W, OF hA distinct_tile_names] by simp
  have eqA: "(\<lambda>x. Translate (?A x)) =
      (\<lambda>(k, i, j). Translate
                  \<lparr>t_destName = tile_name dst k, t_srcDS = src, t_format = ''GTiff'',
                   t_outputType = Some t, t_srcWin = Some [i, j, size_w, size_h],
                   t_noData = noData\<rparr>)"
    by (auto simp add: tile_args_def)
  have eqP: "(\<lambda>x::nat \<times> int \<times> int. \<not> ?P (fst x)) = (\<lambda>(k, i, j). \<not> ?P k)"
    by auto
  have "length (filter (\<lambda>x. ?P (fst x)) ?plan) + length (filter (\<lambda>x. \<not> ?P (fst x)) ?plan) =
        length ?plan"
    by (rule sum_length_filter_compl)
  moreover have "length (filter (\<lambda>x. ?P (fst x)) ?plan) = length (filter ?P (map fst ?plan))"
    by (simp only: filter_map length_map o_def)
  moreover have "map fst ?plan = [1..<Suc (nw * nh)]" by simp
  ultimately have cnt: "length (filter (\<lambda>x. \<not> ?P (fst x)) ?plan) =
      nw * nh - length (filter ?P [1..<Suc (nw * nh)])"
    by simp
  have ex: "\<forall>p. os_path_isfile W p \<longrightarrow> fs (foldl (skip_step ?nm ?A) W ?plan) p = fs W p"
    using fold_existing[of ?A ?nm W _ ?plan, OF hA] by (simp add: os_path_isfile_def)
  show ?thesis
    using tr cnt ex by (simp add: r eqA eqP)
qed

section \<open>resizing\<close>

text \<open>
  C6. When at least one of width and height is set and at least one of xRes and yRes is
  set, resizing does nothing: it returns normally and leaves the world as it was, with
  no call to Warp, no file written and nothing printed.
\<close>

theorem resizing_mixed_does_nothing:
  "width \<noteq> None \<or> height \<noteq> None \<Longrightarrow> xRes \<noteq> None \<or> yRes \<noteq> None \<Longrightarrow>
     resizing W src dst width height xRes yRes dtype = (Inr (), W)"
  by (cases xRes; cases yRes; cases width; cases height) (simp_all add: resizing_def Let_def)

theorem resizing_mixed_does_nothing_witness:
  "resizing world0 ''a.tif'' ''b.tif'' (Some 100) None None (Some 10) ''Float32'' = (Inr (), world0)"
  using resizing_mixed_does_nothing
    [of "Some 100" None None "Some 10" world0 "''a.tif''" "''b.tif''" "''Float32''"]
  by simp

text \<open>
  C10. With width, height, xRes and yRes all unset and a pixel type the module knows,
  resizing passes both tests: it prints both messages and calls Warp twice on the same
  source and destination, each time with no size and no resolution, and returns normally.
\<close>

theorem resizing_all_unset_warps_twice:
  "outputType_of dtype = Some t \<Longrightarrow>
     fst (resizing W src dst None None None None dtype) = Inr () \<and>
     trace (snd (resizing W src dst None None None None dtype)) =
       trace W @
         [Warp \<lparr>w_dst = dst, w_src = src, w_width = None, w_height = None,
                w_xRes = None, w_yRes = None, w_outputType = t, w_resampleAlg = 3\<rparr>,
          Warp \<lparr>w_dst = dst, w_src = src, w_width = None, w_height = None,
                w_xRes = None, w_yRes = None, w_outputType = t, w_resampleAlg = 3\<rparr>] \<and>
     stdout (snd (resizing W src dst None None None None dtype)) =
       stdout W @
         [''New size : width = None / height = None'',
          ''New resolution : xRes = None / yRes = None'']"
  by (simp add: resizing_def resize_by_size_def resize_by_resolution_def gdal_Warp_def
        gdal_run_def log_event_def print_def format_opt_def Let_def)

theorem resizing_all_unset_warps_twice_witness:
  "outputType_of ''Float32'' = Some GDT_Float32 \<and>
   fst (resizing world0 ''a.tif'' ''b.tif'' None None None None ''Float32'') = Inr () \<and>
   length (trace (snd (resizing world0 ''a.tif'' ''b.tif'' None None None None ''Float32''))) = 2"
proof -
  have t: "outputType_of ''Float32'' = Some GDT_Float32" by (simp add: outputType_of_def)
  show ?thesis
    using t resizing_all_unset_warps_twice [OF t, of world0 "''a.tif''" "''b.tif''"]
    by (simp add: world0_def)
qed

text \<open>
  C7, as the code has it. Every Warp call resizing makes, in either mode, asks for the
  same fixed algorithm, the one GDAL numbers 3: the cubic B-spline.
\<close>

theorem resizing_resampling:
  "\<exists>new. trace (snd (resizing W src dst width height xRes yRes dtype)) = trace W @ new \<and>
         resampled_with GRA_CubicSpline new"
  by (cases "outputType_of dtype"; cases xRes; cases yRes; cases width; cases height)
     (simp_all add: resizing_def resize_by_size_def resize_by_resolution_def gdal_Warp_def
        gdal_run_def log_event_def print_def Let_def resampled_with_def GDALResampleAlg_def)

text \<open>
  A resize by resolution makes one Warp call, with algorithm number 3.
\<close>

theorem resizing_resampling_witness:
  "warp_calls (trace (snd (resizing world0 ''a.tif'' ''b.tif'' None None (Some 10) (Some 10)
                             ''Float32''))) =
     [\<lparr>w_dst = ''b.tif'', w_src = ''a.tif'', w_width = None, w_height = None,
       w_xRes = Some 10, w_yRes = Some 10, w_outputType = GDT_Float32, w_resampleAlg = 3\<rparr>] \<and>
   resampled_with GRA_CubicSpline
     (trace (snd (resizing world0 ''a.tif'' ''b.tif'' None None (Some 10) (Some 10) ''Float32'')))"
proof -
  have z: "trace world0 = []" by (simp add: world0_def)
  have w: "warp_calls (trace (snd (resizing world0 ''a.tif'' ''b.tif'' None None (Some 10) (Some 10)
                             ''Float32''))) =
     [\<lparr>w_dst = ''b.tif'', w_src = ''a.tif'', w_width = None, w_height = None,
       w_xRes = Some 10, w_yRes = Some 10, w_outputType = GDT_Float32, w_resampleAlg = 3\<rparr>]"
    by (simp add: resizing_def resize_by_resolution_def gdal_Warp_def gdal_run_def log_event_def
          print_def Let_def outputType_of_def world0_def)
  from resizing_resampling [of world0 "''a.tif''" "''b.tif''" None None "Some 10" "Some 10" "''Float32''"]
  have "resampled_with GRA_CubicSpline
     (trace (snd (resizing world0 ''a.tif'' ''b.tif'' None None (Some 10) (Some 10) ''Float32'')))"
    by (auto simp add: z)
  with w show ?thesis by simp
qed

text \<open>
  C7, as the claim has it, fails: a resize to 10 by 20 pixels does not ask for cubic
  convolution, which is number 2.
\<close>

theorem resizing_not_cubic_convolution:
  "\<not> resampled_with GRA_Cubic
       (trace (snd (resizing world0 ''a.tif'' ''b.tif'' (Some 10) (Some 20) None None ''Float32'')))"
  by (simp add: resizing_def resize_by_size_def resize_by_resolution_def gdal_Warp_def
        gdal_run_def log_event_def print_def Let_def resampled_with_def GDALResampleAlg_def
        outputType_of_def world0_def)

section \<open>save_tiff\<close>

text \<open>
  What save_tiff does with a rank-2 array, and with a rank-3 array of at least two
  bands: one band per entry of the last axis, each with the no-data value and the plane
  sliced from the array, the geotransform and the projection of the two references, and
  a flush at the end.
\<close>

lemma save_tiff_rank2:
  assumes a: "rect2 h w a" and h: "0 < h" and w: "0 < w"
    and p: "gdal_Open W ref_proj = Some pr" and g: "gdal_Open W ref_geom = Some gr"
    and t: "outputType_of dtype = Some t"
    and c: "completes W (Create dst w h 1 t)"
  shows "save_tiff W dst (Arr2 a) ref_proj ref_geom dtype nodata =
     (Inr (),
      W\<lparr>fs := (fs W)(dst \<mapsto> Raster
              \<lparr>RasterXSize = w, RasterYSize = h,
               bands = [\<lparr>NoDataValue = Some nodata, pixels = a\<rparr>],
               GeoTransform = GeoTransform gr, Projection = Projection pr\<rparr>),
        trace := trace W @
          [Create dst w h 1 t, SetGeoTransform dst (GeoTransform gr),
           SetProjection dst (Projection pr), SetNoDataValue dst 1 nodata,
           WriteArray dst 1 (Arr2 a), FlushCache dst]\<rparr>)"
  using h w c
  by (simp add: save_tiff_def shape_rows[OF a h] p g t gdal_Create_def log_event_def blank_def
        ds_SetGeoTransform_def ds_SetProjection_def write_bands_def band_SetNoDataValue_def
        band_WriteArray_def GetRasterBand_def RasterCount_def ds_FlushCache_def Let_def
      del: shape.simps)

lemma band_update_all:
  "(b::band)\<lparr>NoDataValue := x, pixels := y\<rparr> = \<lparr>NoDataValue = x, pixels = y\<rparr>"
  by (cases b) simp

lemma write_band_step:
  assumes "k < length (bands out)" and "k < shape (Arr3 a) ! 2"
  shows "write_band name (Arr3 a) nd (int k + 1) out W =
     (Inr (out\<lparr>bands := (bands out)
              [k := \<lparr>NoDataValue = Some nd, pixels = map (map (\<lambda>px. px ! k)) a\<rparr>]\<rparr>),
      W\<lparr>trace := trace W @
          [SetNoDataValue name (int k + 1) nd,
           WriteArray name (int k + 1) (Arr2 (map (map (\<lambda>px. px ! k)) a))]\<rparr>)"
  using assms
  by (simp add: write_band_def band_SetNoDataValue_def band_WriteArray_def GetRasterBand_def
        RasterCount_def slice_last_def log_event_def band_update_all del: shape.simps)

lemma write_bands_loop:
  assumes "set ks \<subseteq> {0..<length (bands out)}" and "length (bands out) \<le> shape (Arr3 a) ! 2"
  shows "py_for (map (\<lambda>k. int k + 1) ks) (write_band name (Arr3 a) nd) out W =
     (Inr (out\<lparr>bands :=
              foldl (\<lambda>bs k. bs[k := \<lparr>NoDataValue = Some nd, pixels = map (map (\<lambda>px. px ! k)) a\<rparr>])
                (bands out) ks\<rparr>),
      W\<lparr>trace := trace W @
          concat (map (\<lambda>k. [SetNoDataValue name (int k + 1) nd,
                           WriteArray name (int k + 1) (Arr2 (map (map (\<lambda>px. px ! k)) a))]) ks)\<rparr>)"
  using assms
proof (induction ks arbitrary: out W)
  case Nil
  show ?case by simp
next
  case (Cons k ks)
  have k: "k < length (bands out)" "k < shape (Arr3 a) ! 2" using Cons.prems by auto
  let ?out1 = "out\<lparr>bands := (bands out)
              [k := \<lparr>NoDataValue = Some nd, pixels = map (map (\<lambda>px. px ! k)) a\<rparr>]\<rparr>"
  have p1: "set ks \<subseteq> {0..<length (bands ?out1)}" using Cons.prems by simp
  have p2: "length (bands ?out1) \<le> shape (Arr3 a) ! 2" using Cons.prems by simp
  show ?case
    using Cons.IH[OF p1 p2]
    by (simp add: write_band_step[OF k] del: shape.simps)
qed

lemma foldl_set_upt:
  "m \<le> length bs \<Longrightarrow>
     length (foldl (\<lambda>bs k. bs[k := g k]) bs [0..<m]) = length bs \<and>
     (\<forall>i<length bs. foldl (\<lambda>bs k. bs[k := g k]) bs [0..<m] ! i = (if i < m then g i else bs ! i))"
  by (induction m) (auto simp add: nth_list_update)

lemma foldl_set_all:
  "foldl (\<lambda>bs k. bs[k := g k]) (replicate n b) [0..<n] = map g [0..<n]"
  using foldl_set_upt[of n "replicate n b" g]
  by (intro nth_equalityI) simp_all

lemma band_numbers: "map int [1..<n + 1] = map (\<lambda>k. int k + 1) [0..<n]"
  by (induction n) simp_all

lemma save_tiff_rank3:
  assumes a: "rect3 h w n a" and h: "0 < h" and w: "0 < w" and n: "1 < n"
    and p: "gdal_Open W ref_proj = Some pr" and g: "gdal_Open W ref_geom = Some gr"
    and t: "outputType_of dtype = Some t"
    and c: "completes W (Create dst w h n t)"
  shows "save_tiff W dst (Arr3 a) ref_proj ref_geom dtype nodata =
     (Inr (),
      W\<lparr>fs := (fs W)(dst \<mapsto> Raster
              \<lparr>RasterXSize = w, RasterYSize = h,
               bands = map (\<lambda>k. \<lparr>NoDataValue = Some nodata,
                                  pixels = map (map (\<lambda>px. px ! k)) a\<rparr>) [0..<n],
               GeoTransform = GeoTransform gr, Projection = Projection pr\<rparr>),
        trace := trace W @
          [Create dst w h n t, SetGeoTransform dst (GeoTransform gr),
           SetProjection dst (Projection pr)] @
          concat (map (\<lambda>k. [SetNoDataValue dst (int k + 1) nodata,
                           WriteArray dst (int k + 1) (Arr2 (map (map (\<lambda>px. px ! k)) a))])
                    [0..<n]) @
          [FlushCache dst]\<rparr>)"
proof -
  have s: "shape (Arr3 a) = [h, w, n]" using shape_cube[OF a h w] .
  let ?out2 = "(blank w h n)\<lparr>GeoTransform := GeoTransform gr, Projection := Projection pr\<rparr>"
  have l: "length (bands ?out2) = n" by (simp add: blank_def)
  have loop: "\<And>W'. write_bands dst (Arr3 a) nodata n ?out2 W' =
     (Inr (?out2\<lparr>bands := map (\<lambda>k. \<lparr>NoDataValue = Some nodata,
                                  pixels = map (map (\<lambda>px. px ! k)) a\<rparr>) [0..<n]\<rparr>),
      W'\<lparr>trace := trace W' @
          concat (map (\<lambda>k. [SetNoDataValue dst (int k + 1) nodata,
                           WriteArray dst (int k + 1) (Arr2 (map (map (\<lambda>px. px ! k)) a))])
                    [0..<n])\<rparr>)"
  proof -
    fix W'
    have "write_bands dst (Arr3 a) nodata n ?out2 W' =
        py_for (map (\<lambda>k. int k + 1) [0..<n]) (write_band dst (Arr3 a) nodata) ?out2 W'"
      unfolding write_bands_def band_numbers using n by simp
    also have "\<dots> = (Inr (?out2\<lparr>bands :=
              foldl (\<lambda>bs k. bs[k := \<lparr>NoDataValue = Some nodata, pixels = map (map (\<lambda>px. px ! k)) a\<rparr>])
                (bands ?out2) [0..<n]\<rparr>),
      W'\<lparr>trace := trace W' @
          concat (map (\<lambda>k. [SetNoDataValue dst (int k + 1) nodata,
                           WriteArray dst (int k + 1) (Arr2 (map (map (\<lambda>px. px ! k)) a))])
                    [0..<n])\<rparr>)"
      by (rule write_bands_loop) (simp_all add: blank_def s del: shape.simps)
    also have "foldl (\<lambda>bs k. bs[k := \<lparr>NoDataValue = Some nodata, pixels = map (map (\<lambda>px. px ! k)) a\<rparr>])
                (bands ?out2) [0..<n] =
               map (\<lambda>k. \<lparr>NoDataValue = Some nodata, pixels = map (map (\<lambda>px. px ! k)) a\<rparr>) [0..<n]"
      by (simp add: blank_def foldl_set_all)
    finally show "write_bands dst (Arr3 a) nodata n ?out2 W' =
     (Inr (?out2\<lparr>bands := map (\<lambda>k. \<lparr>NoDataValue = Some nodata,
                                  pixels = map (map (\<lambda>px. px ! k)) a\<rparr>) [0..<n]\<rparr>),
      W'\<lparr>trace := trace W' @
          concat (map (\<lambda>k. [SetNoDataValue dst (int k + 1) nodata,
                           WriteArray dst (int k + 1) (Arr2 (map (map (\<lambda>px. px ! k)) a))])
                    [0..<n])\<rparr>)" .
  qed
  show ?thesis
    using h w n c
    by (simp add: save_tiff_def s p g t gdal_Create_def log_event_def
          ds_SetGeoTransform_def ds_SetProjection_def loop ds_FlushCache_def Let_def
        del: shape.simps)
       (simp add: blank_def)
qed

text \<open>
  With a rank-3 array of one band the branch written for rank-2 arrays runs, and the
  whole array reaches \<^verbatim>\<open>WriteArray\<close>: the call raises after the file has been created,
  and the flush is not reached.
\<close>

lemma save_tiff_rank3_one_band:
  assumes a: "rect3 h w 1 a" and h: "0 < h" and w: "0 < w"
    and p: "gdal_Open W ref_proj = Some pr" and g: "gdal_Open W ref_geom = Some gr"
    and t: "outputType_of dtype = Some t"
    and c: "completes W (Create dst w h 1 t)"
  shows "save_tiff W dst (Arr3 a) ref_proj ref_geom dtype nodata =
     (Inl ValueError,
      W\<lparr>fs := (fs W)(dst \<mapsto> Raster (blank w h 1)),
        trace := trace W @
          [Create dst w h 1 t, SetGeoTransform dst (GeoTransform gr),
           SetProjection dst (Projection pr), SetNoDataValue dst 1 nodata,
           WriteArray dst 1 (Arr3 a)]\<rparr>)"
  using h w c
  by (simp add: save_tiff_def shape_cube[OF a h w] p g t gdal_Create_def log_event_def
        ds_SetGeoTransform_def ds_SetProjection_def write_bands_def band_SetNoDataValue_def
        band_WriteArray_def GetRasterBand_def RasterCount_def Let_def
      del: shape.simps)
     (simp add: blank_def)

text \<open>
  C8 fails for a rank-3 array whose last axis has one entry. The band count is 1, so the
  loop over the bands is skipped and the branch written for rank-2 arrays runs: it hands
  the whole rank-3 array to \<^verbatim>\<open>WriteArray\<close> of band 1, not the plane \<^verbatim>\<open>nparray[:,:,0]\<close>.
  \<^verbatim>\<open>WriteArray\<close> raises ValueError; the output file has been created but holds no pixel
  of the array and is never flushed.
\<close>

theorem save_tiff_single_band_rank3:
  "fst (save_tiff world_ref ''out.tif'' (Arr3 [[[1], [2]], [[3], [4]]]) ''ref.tif'' ''ref.tif''
          ''Float32'' (- 9999.9)) = Inl ValueError \<and>
   trace (snd (save_tiff world_ref ''out.tif'' (Arr3 [[[1], [2]], [[3], [4]]]) ''ref.tif''
          ''ref.tif'' ''Float32'' (- 9999.9))) =
     [Create ''out.tif'' 2 2 1 GDT_Float32,
      SetGeoTransform ''out.tif'' [500000, 10, 0, 4600000, 0, - 10],
      SetProjection ''out.tif'' ''EPSG:32631'',
      SetNoDataValue ''out.tif'' 1 (- 9999.9),
      WriteArray ''out.tif'' 1 (Arr3 [[[1], [2]], [[3], [4]]])] \<and>
   fs (snd (save_tiff world_ref ''out.tif'' (Arr3 [[[1], [2]], [[3], [4]]]) ''ref.tif''
          ''ref.tif'' ''Float32'' (- 9999.9))) ''out.tif'' = Some (Raster (blank 2 2 1))"
  by (simp add: save_tiff_def world_ref_def gdal_Open_def outputType_of_def gdal_Create_def
        log_event_def ds_SetGeoTransform_def ds_SetProjection_def write_bands_def
        band_SetNoDataValue_def band_WriteArray_def GetRasterBand_def RasterCount_def
        ds_FlushCache_def Let_def blank_def numeral_2_eq_2)

text \<open>
  C9, as the code has it. save_tiff never compares the array with the raster of the
  geometry reference. When their dimensions differ, for a rank-2 array and for a rank-3
  array of at least two bands, with both references open, a pixel type the module knows
  and an output that can be created, it returns normally and writes an output raster of
  the array's width, height and band count, carrying the geotransform of the geometry
  reference and the projection of the projection reference.
\<close>

theorem save_tiff_no_shape_check:
  assumes arr: "nparray = Arr2 a2 \<and> rect2 h w a2 \<and> n = 1 \<or>
                nparray = Arr3 a3 \<and> rect3 h w n a3 \<and> 1 < n"
    and h: "0 < h" and w: "0 < w"
    and p: "gdal_Open W ref_proj = Some pr" and g: "gdal_Open W ref_geom = Some gr"
    and t: "outputType_of dtype = Some t"
    and c: "completes W (Create dst w h n t)"
    and differ: "RasterXSize gr \<noteq> w \<or> RasterYSize gr \<noteq> h"
  shows "fst (save_tiff W dst nparray ref_proj ref_geom dtype nodata) = Inr () \<and>
         (\<exists>out. fs (snd (save_tiff W dst nparray ref_proj ref_geom dtype nodata)) dst =
                  Some (Raster out) \<and>
                RasterXSize out = w \<and> RasterYSize out = h \<and> RasterCount out = n \<and>
                GeoTransform out = GeoTransform gr \<and> Projection out = Projection pr)"
proof -
  from arr show ?thesis
  proof
    assume "nparray = Arr2 a2 \<and> rect2 h w a2 \<and> n = 1"
    then have n: "nparray = Arr2 a2" and r: "rect2 h w a2" and n1: "n = 1" by simp_all
    show ?thesis
      unfolding n using save_tiff_rank2[OF r h w p g t c[unfolded n1], of nodata]
      by (simp add: n1 RasterCount_def)
  next
    assume "nparray = Arr3 a3 \<and> rect3 h w n a3 \<and> 1 < n"
    then have n: "nparray = Arr3 a3" and r: "rect3 h w n a3" and n1: "1 < n" by simp_all
    show ?thesis
      unfolding n using save_tiff_rank3[OF r h w n1 p g t c, of nodata]
      by (simp add: RasterCount_def)
  qed
qed

text \<open>
  Both kinds of array against the reference of 2 by 2 pixels: a rank-2 array of 1 by 1
  pixels, and a rank-3 array of 1 by 1 pixels and two bands.
\<close>

theorem save_tiff_no_shape_check_witness:
  "(fst (save_tiff world_ref ''out.tif'' (Arr2 [[7]]) ''ref.tif'' ''ref.tif'' ''Float32''
           (- 9999.9)) = Inr () \<and>
    (\<exists>out. fs (snd (save_tiff world_ref ''out.tif'' (Arr2 [[7]]) ''ref.tif'' ''ref.tif''
                       ''Float32'' (- 9999.9))) ''out.tif'' = Some (Raster out) \<and>
           RasterXSize out = 1 \<and> RasterYSize out = 1 \<and> RasterCount out = 1 \<and>
           GeoTransform out = [500000, 10, 0, 4600000, 0, - 10] \<and>
           Projection out = ''EPSG:32631'')) \<and>
   (fst (save_tiff world_ref ''out.tif'' (Arr3 [[[7, 8]]]) ''ref.tif'' ''ref.tif'' ''Float32''
           (- 9999.9)) = Inr () \<and>
    (\<exists>out. fs (snd (save_tiff world_ref ''out.tif'' (Arr3 [[[7, 8]]]) ''ref.tif'' ''ref.tif''
                       ''Float32'' (- 9999.9))) ''out.tif'' = Some (Raster out) \<and>
           RasterXSize out = 1 \<and> RasterYSize out = 1 \<and> RasterCount out = 2 \<and>
           GeoTransform out = [500000, 10, 0, 4600000, 0, - 10] \<and>
           Projection out = ''EPSG:32631''))"
proof -
  let ?ref = "\<lparr>RasterXSize = 2, RasterYSize = 2,
               bands = [\<lparr>NoDataValue = None, pixels = [[0, 0], [0, 0]]\<rparr>],
               GeoTransform = [500000, 10, 0, 4600000, 0, - 10], Projection = ''EPSG:32631''\<rparr>"
  have arr2: "Arr2 [[7]] = Arr2 [[7]] \<and> rect2 1 1 [[7]] \<and> (1::nat) = 1 \<or>
              Arr2 [[7]] = Arr3 [] \<and> rect3 1 1 1 [] \<and> 1 < (1::nat)"
    by (simp add: rect2_def)
  have arr3: "Arr3 [[[7, 8]]] = Arr2 [] \<and> rect2 1 1 [] \<and> (2::nat) = 1 \<or>
              Arr3 [[[7, 8]]] = Arr3 [[[7, 8]]] \<and> rect3 1 1 2 [[[7, 8]]] \<and> 1 < (2::nat)"
    by (simp add: rect3_def rect2_def)
  have o: "gdal_Open world_ref ''ref.tif'' = Some ?ref"
    by (simp add: world_ref_def gdal_Open_def)
  have t: "outputType_of ''Float32'' = Some GDT_Float32" by (simp add: outputType_of_def)
  have c1: "completes world_ref (Create ''out.tif'' 1 1 1 GDT_Float32)"
    by (simp add: world_ref_def)
  have c2: "completes world_ref (Create ''out.tif'' 1 1 2 GDT_Float32)"
    by (simp add: world_ref_def)
  have d: "RasterXSize ?ref \<noteq> 1 \<or> RasterYSize ?ref \<noteq> 1" by simp
  have r2: "fst (save_tiff world_ref ''out.tif'' (Arr2 [[7]]) ''ref.tif'' ''ref.tif'' ''Float32''
           (- 9999.9)) = Inr () \<and>
    (\<exists>out. fs (snd (save_tiff world_ref ''out.tif'' (Arr2 [[7]]) ''ref.tif'' ''ref.tif''
                       ''Float32'' (- 9999.9))) ''out.tif'' = Some (Raster out) \<and>
           RasterXSize out = 1 \<and> RasterYSize out = 1 \<and> RasterCount out = 1 \<and>
           GeoTransform out = [500000, 10, 0, 4600000, 0, - 10] \<and>
           Projection out = ''EPSG:32631'')"
    using save_tiff_no_shape_check [OF arr2 zero_less_one zero_less_one o o t c1 d, of "- 9999.9"]
    by simp
  have r3: "fst (save_tiff world_ref ''out.tif'' (Arr3 [[[7, 8]]]) ''ref.tif'' ''ref.tif'' ''Float32''
           (- 9999.9)) = Inr () \<and>
    (\<exists>out. fs (snd (save_tiff world_ref ''out.tif'' (Arr3 [[[7, 8]]]) ''ref.tif'' ''ref.tif''
                       ''Float32'' (- 9999.9))) ''out.tif'' = Some (Raster out) \<and>
           RasterXSize out = 1 \<and> RasterYSize out = 1 \<and> RasterCount out = 2 \<and>
           GeoTransform out = [500000, 10, 0, 4600000, 0, - 10] \<and>
           Projection out = ''EPSG:32631'')"
    using save_tiff_no_shape_check [OF arr3 zero_less_one zero_less_one o o t c2 d, of "- 9999.9"]
    by simp
  from r2 r3 show ?thesis by (rule conjI)
qed

text \<open>
  C9, as the claim has it, fails: an array of 1 by 1 pixels is written against a
  reference of 2 by 2 pixels, and the call returns normally.
\<close>

theorem save_tiff_accepts_mismatch:
  "fst (save_tiff world_ref ''out.tif'' (Arr2 [[7]]) ''ref.tif'' ''ref.tif'' ''Float32'' (- 9999.9))
     = Inr () \<and>
   fs (snd (save_tiff world_ref ''out.tif'' (Arr2 [[7]]) ''ref.tif'' ''ref.tif'' ''Float32''
              (- 9999.9))) ''out.tif'' =
     Some (Raster \<lparr>RasterXSize = 1, RasterYSize = 1,
                   bands = [\<lparr>NoDataValue = Some (- 9999.9), pixels = [[7]]\<rparr>],
                   GeoTransform = [500000, 10, 0, 4600000, 0, - 10],
                   Projection = ''EPSG:32631''\<rparr>)"
  by (simp add: save_tiff_def world_ref_def gdal_Open_def outputType_of_def gdal_Create_def
        log_event_def ds_SetGeoTransform_def ds_SetProjection_def write_bands_def
        band_SetNoDataValue_def band_WriteArray_def GetRasterBand_def RasterCount_def
        ds_FlushCache_def Let_def blank_def)

end
